theory Spec2Isabelle
  imports Main "HOL-Library.Char_ord" "HOL-Library.List_Lexorder"
begin

section \<open>The documentation stub generator \<open>docs/qe_apidoc.py\<close>\<close>

text \<open>
  The script is Python 2 code: \<open>map\<close> returns a list (the result of \<open>map\<close> is sorted in
  place in \<open>model_tool\<close> and traversed twice in \<open>all_auto\<close>), and \<open>str\<close> is a byte
  string, so \<open>len\<close> counts bytes and \<open>list.sort\<close> compares byte by byte. Strings are
  modelled as \<^typ>\<open>string\<close>, whose order (\<open>Char_ord\<close>, \<open>List_Lexorder\<close>) is that
  byte-wise lexicographic order.
\<close>

type_synonym path = string

subsection \<open>String operations of the Python library\<close>

text \<open>\<open>s.split(sep)\<close> for a one-character separator: never an empty list.\<close>

fun split_py :: "char \<Rightarrow> string \<Rightarrow> string list" where
  "split_py sep [] = [[]]"
| "split_py sep (c # cs) =
     (if c = sep then [] # split_py sep cs
      else (case split_py sep cs of
              [] \<Rightarrow> [[c]]
            | w # ws \<Rightarrow> (c # w) # ws))"

text \<open>\<open>sep.join(xs)\<close>.\<close>

fun join_py :: "string \<Rightarrow> string list \<Rightarrow> string" where
  "join_py sep [] = []"
| "join_py sep [x] = x"
| "join_py sep (x # y # ys) = x @ sep @ join_py sep (y # ys)"

text \<open>\<open>s.capitalize()\<close> on ASCII: first character upper case, the rest lower case.\<close>

definition upper_char :: "char \<Rightarrow> char" where
  "upper_char c =
     (case map_of (zip ''abcdefghijklmnopqrstuvwxyz'' ''ABCDEFGHIJKLMNOPQRSTUVWXYZ'') c of
        None \<Rightarrow> c
      | Some u \<Rightarrow> u)"

definition lower_char :: "char \<Rightarrow> char" where
  "lower_char c =
     (case map_of (zip ''ABCDEFGHIJKLMNOPQRSTUVWXYZ'' ''abcdefghijklmnopqrstuvwxyz'') c of
        None \<Rightarrow> c
      | Some l \<Rightarrow> l)"

fun capitalize :: "string \<Rightarrow> string" where
  "capitalize [] = []"
| "capitalize (c # cs) = upper_char c # map lower_char cs"

text \<open>
  The exceptions the run can end with. \<open>IOError\<close> comes from \<open>open\<close> and \<open>write\<close>,
  \<open>OSError\<close> from \<open>os.makedirs\<close>; \<open>KeyError\<close> and \<open>ValueError\<close> from \<open>str.format\<close>
  and from a dictionary lookup.
\<close>

datatype exn = NameError string | KeyError string | ValueError | IOError path | OSError path

text \<open>
  \<open>template.format(**kw)\<close> for templates whose replacement fields are plain names:
  \<open>{name}\<close> is replaced by the keyword's value, \<open>{{\<close> and \<open>}}\<close> are literal braces,
  a lone brace is a \<open>ValueError\<close> and an unknown name a \<open>KeyError\<close>. The substituted
  values are not scanned again.
\<close>

fun format_py :: "(string \<times> string) list \<Rightarrow> string \<Rightarrow> exn + string"
  and format_field :: "(string \<times> string) list \<Rightarrow> string \<Rightarrow> string \<Rightarrow> exn + string" where
  "format_py kw [] = Inr []"
| "format_py kw (c # cs) =
     (if c = CHR ''{'' then
        (case cs of
           [] \<Rightarrow> Inl ValueError
         | d # ds \<Rightarrow> if d = CHR ''{'' then map_sum id ((#) c) (format_py kw ds)
                     else format_field kw [] cs)
      else if c = CHR ''}'' then
        (case cs of
           [] \<Rightarrow> Inl ValueError
         | d # ds \<Rightarrow> if d = CHR ''}'' then map_sum id ((#) c) (format_py kw ds)
                     else Inl ValueError)
      else map_sum id ((#) c) (format_py kw cs))"
| "format_field kw acc [] = Inl ValueError"
| "format_field kw acc (c # cs) =
     (if c = CHR ''}'' then
        (case map_of kw acc of
           None \<Rightarrow> Inl (KeyError acc)
         | Some v \<Rightarrow> map_sum id ((@) v) (format_py kw cs))
      else format_field kw (acc @ [c]) cs)"

text \<open>\<open>os.path.join\<close> of \<open>posixpath\<close>, for two components and for a first one and more.\<close>

definition path_join :: "path \<Rightarrow> path \<Rightarrow> path" where
  "path_join a b =
     (if b \<noteq> [] \<and> hd b = CHR ''/'' then b
      else if a = [] \<or> last a = CHR ''/'' then a @ b
      else a @ ''/'' @ b)"

definition path_join_list :: "path \<Rightarrow> path list \<Rightarrow> path" where
  "path_join_list a ps = foldl path_join a ps"

subsection \<open>The scanned source tree and \<open>glob\<close>\<close>

text \<open>
  The scanned tree is what \<open>os.listdir\<close> gives for a directory: \<open>Some\<close> of the names in
  the order the operating system lists them, or \<open>None\<close> where \<open>os.listdir\<close> raises
  \<open>os.error\<close> (no such directory, no permission). \<open>glob.glob1\<close> catches that error and
  yields the empty list.
\<close>

type_synonym tree = "path \<Rightarrow> string list option"

text \<open>
  \<open>fnmatch\<close> with the pattern \<open>[a-z0-9]*.py\<close>, the base name of every pattern in the
  script: the regular expression is \<open>[a-z0-9].*\.py\Z\<close> with the flag that lets the
  dot match a line break too.
\<close>

definition in_class :: "char \<Rightarrow> bool" where
  "in_class c \<longleftrightarrow> (CHR ''a'' \<le> c \<and> c \<le> CHR ''z'') \<or> (CHR ''0'' \<le> c \<and> c \<le> CHR ''9'')"

definition fnmatch_module :: "string \<Rightarrow> bool" where
  "fnmatch_module n =
     (case n of
        [] \<Rightarrow> False
      | c # r \<Rightarrow> in_class c \<and> 3 \<le> length r \<and> drop (length r - 3) r = ''.py'')"

text \<open>\<open>glob(dirname + "/[a-z0-9]*.py")\<close>: the matching names, each joined to \<open>dirname\<close>.\<close>

definition glob_py :: "tree \<Rightarrow> path \<Rightarrow> path list" where
  "glob_py tree dirname =
     (case tree dirname of
        None \<Rightarrow> []
      | Some names \<Rightarrow> map (path_join dirname) (filter fnmatch_module names))"

subsection \<open>String templates\<close>

definition module_template :: string where
  "module_template =
     ''{mod_name}\<newline>'' @
     ''{equals}\<newline>'' @
     ''\<newline>'' @
     ''.. automodule:: quantecon.{mod_name}\<newline>'' @
     ''    :members:\<newline>'' @
     ''    :undoc-members:\<newline>'' @
     ''    :show-inheritance:\<newline>''"

definition markov_module_template :: string where
  "markov_module_template =
     ''{mod_name}\<newline>'' @
     ''{equals}\<newline>'' @
     ''\<newline>'' @
     ''.. automodule:: quantecon.markov.{mod_name}\<newline>'' @
     ''    :members:\<newline>'' @
     ''    :undoc-members:\<newline>'' @
     ''    :show-inheritance:\<newline>''"

definition model_module_template :: string where
  "model_module_template =
     ''{mod_name}\<newline>'' @
     ''{equals}\<newline>'' @
     ''\<newline>'' @
     ''.. automodule:: quantecon.models.{mod_name}\<newline>'' @
     ''    :members:\<newline>'' @
     ''    :undoc-members:\<newline>'' @
     ''    :show-inheritance:\<newline>''"

definition solow_model_module_template :: string where
  "solow_model_module_template =
     ''{mod_name}\<newline>'' @
     ''{equals}\<newline>'' @
     ''\<newline>'' @
     ''.. automodule:: quantecon.models.solow.{mod_name}\<newline>'' @
     ''    :members:\<newline>'' @
     ''    :undoc-members:\<newline>'' @
     ''    :show-inheritance:\<newline>''"

definition random_module_template :: string where
  "random_module_template =
     ''{mod_name}\<newline>'' @
     ''{equals}\<newline>'' @
     ''\<newline>'' @
     ''.. automodule:: quantecon.random.{mod_name}\<newline>'' @
     ''    :members:\<newline>'' @
     ''    :undoc-members:\<newline>'' @
     ''    :show-inheritance:\<newline>''"

definition util_module_template :: string where
  "util_module_template =
     ''{mod_name}\<newline>'' @
     ''{equals}\<newline>'' @
     ''\<newline>'' @
     ''.. automodule:: quantecon.util.{mod_name}\<newline>'' @
     ''    :members:\<newline>'' @
     ''    :undoc-members:\<newline>'' @
     ''    :show-inheritance:\<newline>''"

definition all_index_template :: string where
  "all_index_template =
     ''=======================\<newline>'' @
     ''QuantEcon documentation\<newline>'' @
     ''=======================\<newline>'' @
     ''\<newline>'' @
     ''Auto-generated documentation by module:\<newline>'' @
     ''\<newline>'' @
     ''.. toctree::\<newline>'' @
     ''   :maxdepth: 2\<newline>'' @
     ''\<newline>'' @
     ''   {generated}\<newline>'' @
     ''\<newline>'' @
     ''\<newline>'' @
     ''Indices and tables\<newline>'' @
     ''==================\<newline>'' @
     ''\<newline>'' @
     ''* :ref:`genindex`\<newline>'' @
     ''* :ref:`modindex`\<newline>'' @
     ''* :ref:`search`\<newline>''"

definition split_index_template :: string where
  "split_index_template =
     ''=======================\<newline>'' @
     ''QuantEcon documentation\<newline>'' @
     ''=======================\<newline>'' @
     ''\<newline>'' @
     ''The `quantecon` python library is composed of two main section: models\<newline>'' @
     ''and tools. The models section contains implementations of standard\<newline>'' @
     ''models, many of which are discussed in lectures on the website `quant-\<newline>'' @
     ''econ.net <http://quant-econ.net>`_.\<newline>'' @
     ''\<newline>'' @
     ''.. toctree::\<newline>'' @
     ''   :maxdepth: 2\<newline>'' @
     ''\<newline>'' @
     ''   markov\<newline>'' @
     ''   models\<newline>'' @
     ''   random\<newline>'' @
     ''   tools\<newline>'' @
     ''\<newline>'' @
     ''Indices and tables\<newline>'' @
     ''==================\<newline>'' @
     ''\<newline>'' @
     ''* :ref:`genindex`\<newline>'' @
     ''* :ref:`modindex`\<newline>'' @
     ''* :ref:`search`\<newline>''"

definition split_file_template :: string where
  "split_file_template =
     ''{name}\<newline>'' @
     ''{equals}\<newline>'' @
     ''\<newline>'' @
     ''.. toctree::\<newline>'' @
     ''   :maxdepth: 2\<newline>'' @
     ''\<newline>'' @
     ''   {files}\<newline>''"

subsection \<open>The output file system\<close>

text \<open>
  The state the script works on: the directories and the files under the output root,
  the number of file objects that are open, and a journal of what was done to files
  (each \<open>open\<close> and each piece of text that reached a file), in order.
\<close>

datatype mode = Mode_w | Mode_a

datatype event = Opened path mode | Wrote path string

record fs =
  dirs :: "path set"
  files :: "path \<rightharpoonup> string"
  n_open :: nat
  journal :: "event list"

text \<open>
  The environment decides which operations fail: \<open>os.mkdir\<close> raises for the paths in
  \<open>mkdir_fails\<close>, \<open>open\<close> raises for those in \<open>open_fails\<close>, and a file with
  \<open>write_limit\<close> \<open>Some k\<close> takes \<open>k\<close> more characters before \<open>write\<close> raises.
\<close>

record env =
  mkdir_fails :: "path set"
  open_fails :: "path set"
  write_limit :: "path \<Rightarrow> nat option"

definition exists_py :: "fs \<Rightarrow> path \<Rightarrow> bool" where
  "exists_py s p \<longleftrightarrow> p \<in> dirs s \<or> p \<in> dom (files s)"

definition mkdir_py :: "env \<Rightarrow> path \<Rightarrow> fs \<Rightarrow> exn option \<times> fs" where
  "mkdir_py e name s =
     (if name \<in> mkdir_fails e \<or> exists_py s name then (Some (OSError name), s)
      else (None, s\<lparr>dirs := insert name (dirs s)\<rparr>))"

text \<open>
  \<open>os.makedirs(name)\<close>: when the parent is missing it is made first, by the same
  procedure, then \<open>name\<close> itself. The argument is \<open>name\<close> followed by its parent, the
  parent's parent and so on (\<open>lineage\<close> below).
\<close>

fun makedirs_py :: "env \<Rightarrow> path list \<Rightarrow> fs \<Rightarrow> exn option \<times> fs" where
  "makedirs_py e [] s = (None, s)"
| "makedirs_py e (name # heads) s =
     (case (if heads \<noteq> [] \<and> \<not> exists_py s (hd heads) then makedirs_py e heads s
            else (None, s)) of
        (Some x, s') \<Rightarrow> (Some x, s')
      | (None, s') \<Rightarrow> mkdir_py e name s')"

fun prefixes_at_sep :: "path \<Rightarrow> path \<Rightarrow> path list" where
  "prefixes_at_sep acc [] = [acc]"
| "prefixes_at_sep acc (c # cs) =
     (if c = CHR ''/'' then acc # prefixes_at_sep (acc @ [c]) cs
      else prefixes_at_sep (acc @ [c]) cs)"

definition lineage :: "path \<Rightarrow> path list" where
  "lineage p = rev (filter (\<lambda>a. a \<noteq> []) (prefixes_at_sep [] p))"

definition current :: "fs \<Rightarrow> path \<Rightarrow> string" where
  "current s p = (case files s p of None \<Rightarrow> [] | Some c \<Rightarrow> c)"

text \<open>
  \<open>open(p, m)\<close>: mode \<open>"w"\<close> creates the file or empties it, mode \<open>"a"\<close> creates it or
  keeps what it holds.
\<close>

definition open_py :: "env \<Rightarrow> path \<Rightarrow> mode \<Rightarrow> fs \<Rightarrow> exn option \<times> fs" where
  "open_py e p m s =
     (if p \<in> open_fails e then (Some (IOError p), s)
      else (None, s\<lparr>files := (files s)(p \<mapsto> (case m of Mode_w \<Rightarrow> [] | Mode_a \<Rightarrow> current s p)),
                     n_open := Suc (n_open s),
                     journal := journal s @ [Opened p m]\<rparr>))"

definition close_py :: "fs \<Rightarrow> fs" where
  "close_py s = s\<lparr>n_open := n_open s - 1\<rparr>"

definition put_text :: "path \<Rightarrow> string \<Rightarrow> fs \<Rightarrow> fs" where
  "put_text p text s =
     s\<lparr>files := (files s)(p \<mapsto> current s p @ text), journal := journal s @ [Wrote p text]\<rparr>"

text \<open>\<open>f.write(text)\<close>: the text goes after what the file holds.\<close>

definition write_py :: "env \<Rightarrow> path \<Rightarrow> string \<Rightarrow> fs \<Rightarrow> exn option \<times> fs" where
  "write_py e p text s =
     (case write_limit e p of
        None \<Rightarrow> (None, put_text p text s)
      | Some k \<Rightarrow>
          if length text \<le> k then (None, put_text p text s)
          else (Some (IOError p), put_text p (take k text) s))"

subsection \<open>Statements of the script\<close>

text \<open>
  The names bound at module level. A call of any other name that is not a builtin
  raises \<open>NameError\<close>.
\<close>

definition module_globals :: "string list" where
  "module_globals =
     [''os'', ''sys'', ''glob'',
      ''module_template'', ''markov_module_template'', ''model_module_template'',
      ''solow_model_module_template'', ''random_module_template'', ''util_module_template'',
      ''all_index_template'', ''split_index_template'', ''split_file_template'',
      ''source_join'', ''all_auto'', ''model_tool'']"

text \<open>
  The body of a \<open>with open(...) as f\<close> block is one statement: \<open>f.write(text)\<close>, a call
  of a global name with \<open>f\<close> among its arguments, or the exception that computing the
  text raised.
\<close>

datatype body = Write string | Call_global string | Raise exn

text \<open>
  The two statements that touch the file system:
  \<open>if not os.path.exists(p): os.makedirs(p)\<close> and \<open>with open(p, m) as f: body\<close>.
\<close>

datatype stmt = Makedirs_if_missing path | With_open path mode body

fun exec_body :: "env \<Rightarrow> path \<Rightarrow> body \<Rightarrow> fs \<Rightarrow> exn option \<times> fs" where
  "exec_body e p (Write text) s = write_py e p text s"
| "exec_body e p (Call_global g) s =
     (if g \<in> set module_globals then (None, s) else (Some (NameError g), s))"
| "exec_body e p (Raise x) s = (Some x, s)"

text \<open>The \<open>with\<close> block closes the file whether or not its body raised.\<close>

fun exec_stmt :: "env \<Rightarrow> stmt \<Rightarrow> fs \<Rightarrow> exn option \<times> fs" where
  "exec_stmt e (Makedirs_if_missing p) s =
     (if exists_py s p then (None, s) else makedirs_py e (lineage p) s)"
| "exec_stmt e (With_open p m b) s =
     (case open_py e p m s of
        (Some x, s1) \<Rightarrow> (Some x, s1)
      | (None, s1) \<Rightarrow> (case exec_body e p b s1 of (r, s2) \<Rightarrow> (r, close_py s2)))"

text \<open>Statements in sequence; no statement of the script is inside a \<open>try\<close>.\<close>

fun exec :: "env \<Rightarrow> stmt list \<Rightarrow> fs \<Rightarrow> exn option \<times> fs" where
  "exec e [] s = (None, s)"
| "exec e (st # sts) s =
     (case exec_stmt e st s of
        (Some x, s') \<Rightarrow> (Some x, s')
      | (None, s') \<Rightarrow> exec e sts s')"

subsection \<open>Helper function\<close>

definition source_join :: "string \<Rightarrow> path" where
  "source_join f_name = path_join ''source'' f_name"

text \<open>\<open>f.write(template.format(**kw))\<close>.\<close>

definition write_format :: "string \<Rightarrow> (string \<times> string) list \<Rightarrow> body" where
  "write_format template kw =
     (case format_py kw template of Inl x \<Rightarrow> Raise x | Inr text \<Rightarrow> Write text)"

subsection \<open>Main functions\<close>

text \<open>\<open>all_auto\<close>: the module names are the last path components, in the order of \<open>glob\<close>.\<close>

definition all_auto_mod_names :: "tree \<Rightarrow> string list" where
  "all_auto_mod_names tree =
     map (\<lambda>x. last (split_py (CHR ''/'') x)) (glob_py tree ''../quantecon'')"

definition all_auto_generated :: "string list \<Rightarrow> string" where
  "all_auto_generated mod_names =
     join_py ''\<newline>   '' (map (\<lambda>x. ''modules/'' @ hd (split_py (CHR ''.'') x)) mod_names)"

definition all_auto_stmts :: "tree \<Rightarrow> stmt list" where
  "all_auto_stmts tree =
     (let mod_names = all_auto_mod_names tree in
      [Makedirs_if_missing (source_join ''modules'')] @
      map (\<lambda>md.
             let name = hd (split_py (CHR ''.'') md);
                 new_path = path_join_list ''source'' [''modules'', name @ ''.rst'']
             in With_open new_path Mode_w (Call_global ''gen_module''))
          mod_names @
      [With_open (source_join ''index.rst'') Mode_w
         (write_format all_index_template [(''generated'', all_auto_generated mod_names)])])"

definition all_auto :: "tree \<Rightarrow> env \<Rightarrow> fs \<Rightarrow> exn option \<times> fs" where
  "all_auto tree e s = exec e (all_auto_stmts tree) s"

text \<open>
  \<open>model_tool\<close>: per category, \<open>x.split('/')[-1][:-3]\<close> of every \<open>glob\<close> result, then
  \<open>sort()\<close>.
\<close>

definition bare_name :: "path \<Rightarrow> string" where
  "bare_name x = (let b = last (split_py (CHR ''/'') x) in take (length b - 3) b)"

definition category_names :: "tree \<Rightarrow> path \<Rightarrow> string list" where
  "category_names tree dirname = sort (map bare_name (glob_py tree dirname))"

text \<open>One loop \<open>for md in names: with open(...) as f: f.write(template.format(...))\<close>.\<close>

definition write_modules :: "path list \<Rightarrow> string \<Rightarrow> string list \<Rightarrow> stmt list" where
  "write_modules folder template names =
     map (\<lambda>md.
            let new_path = path_join_list ''source'' (folder @ [md @ ''.rst'']);
                equals = replicate (length md) (CHR ''='')
            in With_open new_path Mode_w
                 (write_format template [(''mod_name'', md), (''equals'', equals)]))
         names"

definition toc_tree_list ::
  "string list \<Rightarrow> string list \<Rightarrow> string list \<Rightarrow> string list \<Rightarrow> string list
    \<Rightarrow> (string \<times> string) list" where
  "toc_tree_list markov models random tools util =
     (let mark = ''markov/'' @ join_py ''\<newline>   markov/'' markov;
          mods = ''models/'' @ join_py ''\<newline>   models/'' models;
          mods = mods @ ''\<newline>   solow/'';
          rand = ''random/'' @ join_py ''\<newline>   random/'' random;
          tlz = ''tools/'' @ join_py ''\<newline>   tools/'' tools;
          utls = ''util/'' @ join_py ''\<newline>   util/'' util
      in [(''markov'', mark), (''models'', mods), (''tools'', tlz), (''random'', rand),
          (''util'', utls)])"

definition write_category_index :: "(string \<times> string) list \<Rightarrow> string \<Rightarrow> stmt" where
  "write_category_index toc f_name =
     With_open (source_join (f_name @ ''.rst'')) Mode_w
       (case map_of toc f_name of
          None \<Rightarrow> Raise (KeyError f_name)
        | Some listed \<Rightarrow>
            write_format split_file_template
              [(''name'', capitalize f_name),
               (''equals'', replicate (length f_name) (CHR ''='')),
               (''files'', listed)])"

definition model_tool_stmts :: "tree \<Rightarrow> stmt list" where
  "model_tool_stmts tree =
     (let markov = category_names tree ''../quantecon/markov'';
          models = category_names tree ''../quantecon/models'';
          solow = category_names tree ''../quantecon/models/solow'';
          random = category_names tree ''../quantecon/random'';
          tools = category_names tree ''../quantecon'';
          util = category_names tree ''../quantecon/util''
      in
      map (\<lambda>folder. Makedirs_if_missing (source_join folder))
          [''markov'', ''models'', ''models/solow'', ''random'', ''tools'', ''util''] @
      write_modules [''markov''] markov_module_template markov @
      write_modules [''models''] model_module_template models @
      write_modules [''models'', ''solow''] solow_model_module_template solow @
      write_modules [''random''] random_module_template random @
      write_modules [''tools''] module_template tools @
      write_modules [''util''] util_module_template util @
      [With_open (source_join ''index.rst'') Mode_w (Write split_index_template)] @
      map (write_category_index (toc_tree_list markov models random tools util))
          [''markov'', ''models'', ''random'', ''tools'', ''util''])"

definition model_tool :: "tree \<Rightarrow> env \<Rightarrow> fs \<Rightarrow> exn option \<times> fs" where
  "model_tool tree e s = exec e (model_tool_stmts tree) s"

text \<open>
  The entry point: \<open>argv\<close> is \<open>sys.argv\<close>, whose first element is the script's name.
\<close>

definition main :: "string list \<Rightarrow> tree \<Rightarrow> env \<Rightarrow> fs \<Rightarrow> exn option \<times> fs" where
  "main argv tree e s =
     (if ''single'' \<in> set (drop 1 argv) then all_auto tree e s else model_tool tree e s)"

subsection \<open>Notions used to state the properties\<close>

text \<open>
  A per-module template filled in for the module \<open>m\<close> of the dotted package prefix
  \<open>package\<close> (empty, \<open>markov.\<close>, \<open>models.\<close>, ...), written out.
\<close>

definition module_doc :: "string \<Rightarrow> string \<Rightarrow> string" where
  "module_doc package m =
     m @ ''\<newline>'' @ replicate (length m) (CHR ''='') @ ''\<newline>'' @ ''\<newline>'' @
     ''.. automodule:: quantecon.'' @ package @ m @ ''\<newline>'' @
     ''    :members:\<newline>'' @
     ''    :undoc-members:\<newline>'' @
     ''    :show-inheritance:\<newline>''"

text \<open>Line \<open>i\<close> of a text, counted from 0, where lines end at the line feed.\<close>

definition line_py :: "nat \<Rightarrow> string \<Rightarrow> string option" where
  "line_py i text =
     (let ls = split_py (CHR 0x0A) text in if i < length ls then Some (ls ! i) else None)"

definition six_templates :: "string set" where
  "six_templates = {module_template, markov_module_template, model_module_template,
     solow_model_module_template, random_module_template, util_module_template}"

text \<open>An environment in which nothing fails, and the empty output directory.\<close>

definition quiet_env :: env where
  "quiet_env = \<lparr>mkdir_fails = {}, open_fails = {}, write_limit = (\<lambda>_. None)\<rparr>"

definition empty_fs :: fs where
  "empty_fs = \<lparr>dirs = {}, files = Map.empty, n_open = 0, journal = []\<rparr>"

text \<open>
  A statement that, if it opens a file, opens it with mode \<open>"w"\<close>.
\<close>

fun opens_for_writing :: "stmt \<Rightarrow> bool" where
  "opens_for_writing (Makedirs_if_missing p) = True"
| "opens_for_writing (With_open p m b) = (m = Mode_w)"

text \<open>
  The path of the per-module file that \<open>all_auto\<close> opens first.
\<close>

definition first_module_path :: "tree \<Rightarrow> path" where
  "first_module_path tree =
     path_join_list ''source''
       [''modules'', hd (split_py (CHR ''.'') (hd (all_auto_mod_names tree))) @ ''.rst'']"

text \<open>
  A scanned tree whose base directory lists \<open>b.py\<close> before \<open>a.py\<close>.
\<close>

definition listing_b_a :: tree where
  "listing_b_a = [''../quantecon'' \<mapsto> [''b.py'', ''a.py'']]"

text \<open>
  The statements of a run, by mode.
\<close>

definition main_stmts :: "string list \<Rightarrow> tree \<Rightarrow> stmt list" where
  "main_stmts argv tree =
     (if ''single'' \<in> set (drop 1 argv) then all_auto_stmts tree else model_tool_stmts tree)"

text \<open>
  The category index template filled in for the category \<open>f_name\<close> and the text
  \<open>listed\<close> of its inclusion block, written out.
\<close>

definition index_doc :: "string \<Rightarrow> string \<Rightarrow> string" where
  "index_doc f_name listed =
     capitalize f_name @ ''\<newline>'' @ replicate (length f_name) (CHR ''='') @ ''\<newline>'' @ ''\<newline>'' @
     ''.. toctree::\<newline>'' @
     ''   :maxdepth: 2\<newline>'' @
     ''\<newline>'' @
     ''   '' @ listed @ ''\<newline>''"

text \<open>
  The statements of \<open>model_tool\<close> in closed form: the one that writes the document of a
  module, and the one that writes a category index.
\<close>

definition module_stmt :: "string \<Rightarrow> string \<Rightarrow> string \<Rightarrow> stmt" where
  "module_stmt folder package md =
     With_open (''source/'' @ folder @ ''/'' @ md @ ''.rst'') Mode_w (Write (module_doc package md))"

definition index_stmt :: "string \<Rightarrow> string \<Rightarrow> stmt" where
  "index_stmt f_name listed =
     With_open (''source/'' @ f_name @ ''.rst'') Mode_w (Write (index_doc f_name listed))"

text \<open>
  What a \<open>with\<close> block that ended normally has put into the file it opened with mode
  \<open>"w"\<close>.
\<close>

fun written_text :: "body \<Rightarrow> string" where
  "written_text (Write c) = c"
| "written_text (Call_global g) = []"
| "written_text (Raise x) = []"

text \<open>
  A statement that can fail only through the file system.
\<close>

fun plain :: "stmt \<Rightarrow> bool" where
  "plain (Makedirs_if_missing p) = True"
| "plain (With_open p m (Write c)) = (m = Mode_w)"
| "plain (With_open p m (Call_global g)) = False"
| "plain (With_open p m (Raise x)) = False"

text \<open>
  The scanned tree of the end-to-end example: \<open>markov/ergodicity.py\<close> and
  \<open>models/lucastree.py\<close>.
\<close>

definition example_tree :: tree where
  "example_tree = [''../quantecon/markov'' \<mapsto> [''ergodicity.py''],
                   ''../quantecon/models'' \<mapsto> [''lucastree.py'']]"

text \<open>
  The entries of the first \<open>toctree\<close> directive of a document: of the lines after the
  directive line, up to the first line that is neither blank nor indented by three
  blanks, those that are not blank and not an option (\<open>:maxdepth: 2\<close>), without their
  indentation.
\<close>

definition toctree_entries :: "string \<Rightarrow> string list" where
  "toctree_entries doc =
     (let ls = split_py (CHR 0x0A) doc;
          after = tl (dropWhile (\<lambda>l. l \<noteq> ''.. toctree::'') ls);
          block = takeWhile (\<lambda>l. l = [] \<or> take 3 l = ''   '') after
      in map (drop 3) (filter (\<lambda>l. l \<noteq> [] \<and> take 4 l \<noteq> ''   :'') block))"

text \<open>
  The entries that the inclusion block of a category index is joined from: one per name,
  each with the category prefix; with no name at all, the prefix alone.
\<close>

definition listed_entries :: "string \<Rightarrow> string list \<Rightarrow> string list" where
  "listed_entries f_name names =
     (if names = [] then [f_name @ ''/''] else map ((@) (f_name @ ''/'')) names)"

text \<open>
  The categories that get an index document: the tuple of the last loop of \<open>model_tool\<close>.
\<close>

definition category_files :: "string list" where
  "category_files = [''markov'', ''models'', ''random'', ''tools'', ''util'']"

section \<open>Properties\<close>

subsection \<open>Strings and templates\<close>

lemma capitalize_names:
  "capitalize ''markov'' = ''Markov''" "capitalize ''models'' = ''Models''"
  "capitalize ''random'' = ''Random''" "capitalize ''tools'' = ''Tools''"
  "capitalize ''util'' = ''Util''"
  by (simp_all add: upper_char_def lower_char_def)

lemma format_module_templates:
  "format_py [(''mod_name'', m), (''equals'', replicate (length m) (CHR ''=''))] module_template = Inr (module_doc [] m)"
  "format_py [(''mod_name'', m), (''equals'', replicate (length m) (CHR ''=''))] markov_module_template = Inr (module_doc ''markov.'' m)"
  "format_py [(''mod_name'', m), (''equals'', replicate (length m) (CHR ''=''))] model_module_template = Inr (module_doc ''models.'' m)"
  "format_py [(''mod_name'', m), (''equals'', replicate (length m) (CHR ''=''))] solow_model_module_template = Inr (module_doc ''models.solow.'' m)"
  "format_py [(''mod_name'', m), (''equals'', replicate (length m) (CHR ''=''))] random_module_template = Inr (module_doc ''random.'' m)"
  "format_py [(''mod_name'', m), (''equals'', replicate (length m) (CHR ''=''))] util_module_template = Inr (module_doc ''util.'' m)"
  by (simp_all add: module_doc_def module_template_def markov_module_template_def model_module_template_def
     solow_model_module_template_def random_module_template_def util_module_template_def)

lemma format_split_file: 
  "format_py [(''name'', n), (''equals'', q), (''files'', l)] split_file_template =
     Inr (n @ ''\<newline>'' @ q @ ''\<newline>'' @ ''\<newline>'' @ ''.. toctree::\<newline>'' @ ''   :maxdepth: 2\<newline>'' @ ''\<newline>'' @ ''   '' @ l @ ''\<newline>'')"
  by (simp add: split_file_template_def)

lemma split_py_ne: "split_py sep s \<noteq> []"
  by (induction s) (auto split: list.splits)

lemma split_py_nosep: "sep \<notin> set a \<Longrightarrow> split_py sep (a @ sep # b) = a # split_py sep b"
  by (induction a) (auto split: list.splits)

lemma split_py_nosep_end: "sep \<notin> set a \<Longrightarrow> split_py sep a = [a]"
  by (induction a) (auto split: list.splits)

lemma last_split_no_sep: "sep \<notin> set (last (split_py sep s))"
  by (induction s) (auto split: list.splits simp: split_py_ne)

lemma hd_split_no_sep: "sep \<notin> set (hd (split_py sep s))"
  by (induction s) (auto split: list.splits)

lemma hd_split_subset: "set (hd (split_py sep s)) \<subseteq> set s"
  by (induction s) (auto split: list.splits)

lemma format_six:
  assumes "template \<in> six_templates"
  shows "\<exists>package. format_py [(''mod_name'', m), (''equals'', replicate (length m) (CHR ''=''))] template
     = Inr (module_doc package m)"
  using assms unfolding six_templates_def
  by (auto simp: format_module_templates)

lemma line1_module_doc:
  assumes "CHR 0x0A \<notin> set m"
  shows "line_py 1 (module_doc package m) = Some (replicate (length m) (CHR ''=''))"
proof -
  define rest where "rest = ''\<newline>'' @
     ''.. automodule:: quantecon.'' @ package @ m @ ''\<newline>'' @
     ''    :members:\<newline>'' @
     ''    :undoc-members:\<newline>'' @
     ''    :show-inheritance:\<newline>''"
  let ?u = "replicate (length m) (CHR ''='')"
  have doc: "module_doc package m = m @ CHR 0x0A # (?u @ CHR 0x0A # rest)"
    by (simp add: module_doc_def rest_def)
  have "CHR 0x0A \<notin> set ?u" by simp
  then have "split_py (CHR 0x0A) (?u @ CHR 0x0A # rest) = ?u # split_py (CHR 0x0A) rest"
    by (rule split_py_nosep)
  with split_py_nosep [OF assms, of "?u @ CHR 0x0A # rest"]
  have "split_py (CHR 0x0A) (module_doc package m) = m # ?u # split_py (CHR 0x0A) rest"
    by (simp only: doc)
  then show ?thesis
    by (simp add: line_py_def)
qed

subsection \<open>The heading rule of a per-module document\<close>

text \<open>
  C1 (as amended). Every statement of a per-module loop of \<open>model_tool\<close>, for each of the
  six per-module templates, opens the module's file for writing and writes a text that
  starts with the module name, a line feed, the character \<open>=\<close> repeated exactly
  \<open>len(name)\<close> times and a line feed. When the name holds no line feed, that underline
  is the second line of the document. (\<open>all_auto\<close> renders no per-module text.)
\<close>

theorem underline_of_module_document:
  assumes "st \<in> set (write_modules folder template names)" and "template \<in> six_templates"
  shows "\<exists>md text rest. md \<in> set names \<and>
           st = With_open (path_join_list ''source'' (folder @ [md @ ''.rst''])) Mode_w (Write text) \<and>
           text = md @ ''\<newline>'' @ replicate (length md) (CHR ''='') @ ''\<newline>'' @ rest \<and>
           (CHR 0x0A \<notin> set md \<longrightarrow> line_py 1 text = Some (replicate (length md) (CHR ''='')))"
proof -
  from assms(1) obtain md where md: "md \<in> set names"
    and st: "st = With_open (path_join_list ''source'' (folder @ [md @ ''.rst''])) Mode_w
         (write_format template [(''mod_name'', md), (''equals'', replicate (length md) (CHR ''=''))])"
    by (auto simp: write_modules_def Let_def)
  from format_six [OF assms(2), of md] obtain package where
    f: "format_py [(''mod_name'', md), (''equals'', replicate (length md) (CHR ''=''))] template
          = Inr (module_doc package md)" by blast
  have w: "write_format template [(''mod_name'', md), (''equals'', replicate (length md) (CHR ''=''))]
     = Write (module_doc package md)"
    by (simp add: write_format_def f)
  define rest where "rest = ''\<newline>'' @ ''.. automodule:: quantecon.'' @ package @ md @ ''\<newline>'' @
     ''    :members:\<newline>'' @ ''    :undoc-members:\<newline>'' @ ''    :show-inheritance:\<newline>''"
  have shape: "module_doc package md =
      md @ ''\<newline>'' @ replicate (length md) (CHR ''='') @ ''\<newline>'' @ rest"
    by (simp add: module_doc_def rest_def)
  have st': "st = With_open (path_join_list ''source'' (folder @ [md @ ''.rst''])) Mode_w
       (Write (module_doc package md))"
    using st w by simp
  have l: "CHR 0x0A \<notin> set md \<longrightarrow>
      line_py 1 (module_doc package md) = Some (replicate (length md) (CHR ''=''))"
    using line1_module_doc by blast
  show ?thesis
    apply (rule exI [of _ md])
    apply (rule exI [of _ "module_doc package md"])
    apply (rule exI [of _ rest])
    using md st' shape l apply blast
    done
qed

theorem underline_of_module_document_witness:
  "\<exists>text. write_modules [''markov''] markov_module_template [''core''] =
      [With_open ''source/markov/core.rst'' Mode_w (Write text)] \<and>
     line_py 1 text = Some ''====''"
proof -
  let ?st = "With_open ''source/markov/core.rst'' Mode_w (Write (module_doc ''markov.'' ''core''))"
  have eq: "write_modules [''markov''] markov_module_template [''core''] = [?st]"
    by (simp add: write_modules_def write_format_def format_module_templates
        path_join_list_def path_join_def)
  then have mem: "?st \<in> set (write_modules [''markov''] markov_module_template [''core''])"
    by simp
  have t: "markov_module_template \<in> six_templates" by (simp add: six_templates_def)
  from underline_of_module_document [OF mem t] obtain md doc rest where
    a: "md \<in> set [''core'']" and
    b: "?st = With_open (path_join_list ''source'' ([''markov''] @ [md @ ''.rst''])) Mode_w (Write doc)" and
    c: "CHR 0x0A \<notin> set md \<longrightarrow> line_py 1 doc = Some (replicate (length md) (CHR ''=''))"
    by blast
  from a have md: "md = ''core''" by simp
  from b have d: "doc = module_doc ''markov.'' ''core''" by simp
  from c md have "line_py 1 doc = Some ''===='' " by simp
  with eq d show ?thesis by simp
qed

text \<open>
  For a file \<open>a\<newline>b.py\<close> (a line feed is a legal character of a file name, and the
  pattern's \<open>*\<close> matches it) the second line of the document is \<open>b\<close>, not the
  underline \<open>===\<close>.
\<close>

theorem second_line_counterexample:
  "write_modules [''markov''] markov_module_template [''a\<newline>b''] =
     [With_open ''source/markov/a\<newline>b.rst'' Mode_w
        (Write (''a\<newline>'' @ ''b\<newline>'' @ ''===\<newline>'' @ ''\<newline>'' @
                ''.. automodule:: quantecon.markov.a\<newline>'' @ ''b\<newline>'' @
                ''    :members:\<newline>'' @ ''    :undoc-members:\<newline>'' @
                ''    :show-inheritance:\<newline>''))] \<and>
   line_py 1 (''a\<newline>'' @ ''b\<newline>'' @ ''===\<newline>'' @ ''\<newline>'' @
                ''.. automodule:: quantecon.markov.a\<newline>'' @ ''b\<newline>'' @
                ''    :members:\<newline>'' @ ''    :undoc-members:\<newline>'' @
                ''    :show-inheritance:\<newline>'') = Some ''b'' \<and>
   ''b'' \<noteq> replicate (length ''a\<newline>b'') (CHR ''='')"
  by (simp add: write_modules_def write_format_def format_module_templates module_doc_def
        path_join_list_def path_join_def line_py_def)

subsection \<open>Mode selection\<close>

text \<open>
  C2. The arguments after the script's name decide the mode: \<open>all_auto\<close> runs exactly when
  one of them is the string \<open>single\<close>, and \<open>model_tool\<close> runs otherwise, also when there
  is no argument at all; a run is one of the two and never both.
\<close>

theorem mode_selection:
  "main (prog # args) tree e s =
     (if ''single'' \<in> set args then all_auto tree e s else model_tool tree e s) \<and>
   main [] tree e s = model_tool tree e s"
  by (simp add: main_def)

theorem mode_selection_witness:
  "main [''qe_apidoc.py'', ''single''] (\<lambda>d. None) quiet_env empty_fs =
     all_auto (\<lambda>d. None) quiet_env empty_fs \<and>
   main [''qe_apidoc.py'', ''foo_bar''] (\<lambda>d. None) quiet_env empty_fs =
     model_tool (\<lambda>d. None) quiet_env empty_fs \<and>
   main [''qe_apidoc.py''] (\<lambda>d. None) quiet_env empty_fs =
     model_tool (\<lambda>d. None) quiet_env empty_fs"
  using mode_selection [of "''qe_apidoc.py''" "[''single'']" "\<lambda>d. None" quiet_env empty_fs]
    mode_selection [of "''qe_apidoc.py''" "[''foo_bar'']" "\<lambda>d. None" quiet_env empty_fs]
    mode_selection [of "''qe_apidoc.py''" "[]" "\<lambda>d. None" quiet_env empty_fs]
  by simp

subsection \<open>Directory creation, and what a statement leaves unchanged\<close>

lemma mkdir_py_frame:
  assumes "mkdir_py e name s = (r, s1)"
  shows "files s1 = files s \<and> n_open s1 = n_open s \<and> journal s1 = journal s \<and>
         dirs s \<subseteq> dirs s1 \<and> dirs s1 \<subseteq> insert name (dirs s)"
  using assms by (auto simp: mkdir_py_def split: if_splits)

lemma makedirs_py_frame:
  assumes "makedirs_py e l s = (r, s1)"
  shows "files s1 = files s \<and> n_open s1 = n_open s \<and> journal s1 = journal s \<and>
         dirs s \<subseteq> dirs s1 \<and> dirs s1 \<subseteq> dirs s \<union> set l"
  using assms
proof (induction l arbitrary: s r s1)
  case Nil
  then show ?case by simp
next
  case (Cons name heads)
  show ?case
  proof (cases "heads \<noteq> [] \<and> \<not> exists_py s (hd heads)")
    case True
    obtain r0 s0 where rec: "makedirs_py e heads s = (r0, s0)" by (cases "makedirs_py e heads s")
    from Cons.IH [OF rec] have f0: "files s0 = files s" "n_open s0 = n_open s"
      "journal s0 = journal s" "dirs s \<subseteq> dirs s0" "dirs s0 \<subseteq> dirs s \<union> set heads" by auto
    show ?thesis
    proof (cases r0)
      case None
      with Cons.prems True rec have "mkdir_py e name s0 = (r, s1)" by simp
      from mkdir_py_frame [OF this] f0 show ?thesis by auto
    next
      case (Some x)
      with Cons.prems True rec have "s1 = s0" by simp
      with f0 show ?thesis by auto
    qed
  next
    case False
    with Cons.prems have "mkdir_py e name s = (r, s1)" by auto
    from mkdir_py_frame [OF this] show ?thesis by auto
  qed
qed

lemma makedirs_py_made:
  assumes "makedirs_py e (name # heads) s = (None, s1)"
  shows "name \<in> dirs s1"
proof -
  obtain r0 s0 where
    "(if heads \<noteq> [] \<and> \<not> exists_py s (hd heads) then makedirs_py e heads s else (None, s)) = (r0, s0)"
    by (cases "if heads \<noteq> [] \<and> \<not> exists_py s (hd heads) then makedirs_py e heads s else (None, s)")
  with assms have "mkdir_py e name s0 = (None, s1)"
    by (cases r0) (simp_all del: if_split)
  then show ?thesis by (auto simp: mkdir_py_def split: if_splits)
qed

text \<open>makedirs looks at the directories and at which files exist, and changes the directories only\<close>

lemma mkdir_py_cong:
  assumes "dirs t = dirs s" "dom (files t) = dom (files s)"
  shows "mkdir_py e name t = (fst (mkdir_py e name s), t\<lparr>dirs := dirs (snd (mkdir_py e name s))\<rparr>)"
  using assms by (simp add: mkdir_py_def exists_py_def)

lemma makedirs_py_cong:
  assumes "dirs t = dirs s" "dom (files t) = dom (files s)"
  shows "makedirs_py e l t = (fst (makedirs_py e l s), t\<lparr>dirs := dirs (snd (makedirs_py e l s))\<rparr>)"
  using assms
proof (induction l arbitrary: s t)
  case Nil
  then show ?case by simp
next
  case (Cons name heads)
  have ex: "exists_py t q = exists_py s q" for q
    using Cons.prems by (simp add: exists_py_def)
  show ?case
  proof (cases "heads \<noteq> [] \<and> \<not> exists_py s (hd heads)")
    case True
    obtain r0 s0 where rec: "makedirs_py e heads s = (r0, s0)" by (cases "makedirs_py e heads s")
    from Cons.IH [OF Cons.prems] rec
    have rect: "makedirs_py e heads t = (r0, t\<lparr>dirs := dirs s0\<rparr>)" by simp
    from makedirs_py_frame [OF rec] have f: "files s0 = files s" by simp
    show ?thesis
    proof (cases r0)
      case None
      have "mkdir_py e name (t\<lparr>dirs := dirs s0\<rparr>) =
          (fst (mkdir_py e name s0), (t\<lparr>dirs := dirs s0\<rparr>)\<lparr>dirs := dirs (snd (mkdir_py e name s0))\<rparr>)"
        by (rule mkdir_py_cong) (simp_all add: f Cons.prems)
      with None True rec rect ex show ?thesis by simp
    next
      case (Some x)
      with True rec rect ex show ?thesis by simp
    qed
  next
    case False
    with ex mkdir_py_cong [OF Cons.prems, of e name] show ?thesis by auto
  qed
qed

lemma makedirs_py_again:
  assumes "distinct l" "makedirs_py e l s = (Some x, s1)" "l \<noteq> [] \<longrightarrow> \<not> exists_py s (hd l)"
  shows "makedirs_py e l s1 = (Some x, s1) \<and> (l \<noteq> [] \<longrightarrow> \<not> exists_py s1 (hd l))"
  using assms
proof (induction l arbitrary: s x s1)
  case Nil
  then show ?case by simp
next
  case (Cons name heads)
  from Cons.prems have nm: "\<not> exists_py s name" "name \<notin> set heads" "distinct heads" by auto
  show ?case
  proof (cases "heads \<noteq> [] \<and> \<not> exists_py s (hd heads)")
    case True
    obtain r0 s0 where rec: "makedirs_py e heads s = (r0, s0)" by (cases "makedirs_py e heads s")
    from makedirs_py_frame [OF rec] have f0: "files s0 = files s" "dirs s0 \<subseteq> dirs s \<union> set heads"
      by auto
    with nm have nm0: "\<not> exists_py s0 name" by (auto simp: exists_py_def)
    show ?thesis
    proof (cases r0)
      case None
      with Cons.prems True rec have mk: "mkdir_py e name s0 = (Some x, s1)" by simp
      then have eq: "s1 = s0" by (auto simp: mkdir_py_def split: if_splits)
      from True obtain h hs where hs: "heads = h # hs" by (cases heads) auto
      from rec None hs have "h \<in> dirs s0" using makedirs_py_made by blast
      then have "exists_py s0 (hd heads)" by (simp add: hs exists_py_def)
      with mk eq nm0 show ?thesis by simp
    next
      case (Some y)
      with Cons.prems True rec have eq: "s1 = s0" "y = x" by simp_all
      from Cons.IH [OF nm(3) rec [unfolded Some eq(2)]] True
      have "makedirs_py e heads s0 = (Some x, s0)" "\<not> exists_py s0 (hd heads)" by auto
      with True eq nm0 show ?thesis by simp
    qed
  next
    case False
    with Cons.prems have mk: "mkdir_py e name s = (Some x, s1)" by auto
    then have eq: "s1 = s" by (auto simp: mkdir_py_def split: if_splits)
    with mk False nm show ?thesis by auto
  qed
qed

lemma prefixes_at_sep_ne: "prefixes_at_sep acc cs \<noteq> []"
  by (induction cs arbitrary: acc) auto

lemma last_prefixes_at_sep: "last (prefixes_at_sep acc cs) = acc @ cs"
  by (induction cs arbitrary: acc) (auto simp: prefixes_at_sep_ne)

lemma prefixes_at_sep_length:
  "x \<in> set (prefixes_at_sep acc cs) \<Longrightarrow> length acc \<le> length x"
  by (induction cs arbitrary: acc) (fastforce split: if_splits)+

lemma distinct_prefixes_at_sep: "distinct (prefixes_at_sep acc cs)"
proof (induction cs arbitrary: acc)
  case Nil
  then show ?case by simp
next
  case (Cons c cs)
  have "acc \<notin> set (prefixes_at_sep (acc @ [c]) cs)"
    using prefixes_at_sep_length [of acc "acc @ [c]" cs] by auto
  with Cons show ?case by auto
qed

lemma last_filter_keep: "xs \<noteq> [] \<Longrightarrow> P (last xs) \<Longrightarrow> last (filter P xs) = last xs"
proof (induction xs)
  case Nil
  then show ?case by simp
next
  case (Cons a xs)
  show ?case
  proof (cases "xs = []")
    case True
    with Cons.prems show ?thesis by simp
  next
    case False
    with Cons.prems have "P (last xs)" by simp
    moreover from False have "last xs \<in> set xs" by simp
    ultimately have "filter P xs \<noteq> []" by (auto simp: filter_empty_conv)
    with Cons False \<open>P (last xs)\<close> show ?thesis by simp
  qed
qed

lemma distinct_lineage: "distinct (lineage p)"
  by (simp add: lineage_def distinct_prefixes_at_sep)

lemma hd_lineage: "lineage p \<noteq> [] \<Longrightarrow> hd (lineage p) = p"
proof -
  assume ne: "lineage p \<noteq> []"
  have l: "last (prefixes_at_sep [] p) = p" by (simp add: last_prefixes_at_sep)
  have "p \<noteq> []"
  proof
    assume "p = []"
    then have "lineage p = []" by (simp add: lineage_def)
    with ne show False by simp
  qed
  then have "last (filter (\<lambda>a. a \<noteq> []) (prefixes_at_sep [] p)) = p"
    using l last_filter_keep [of "prefixes_at_sep [] p" "\<lambda>a. a \<noteq> []"]
    by (simp add: prefixes_at_sep_ne)
  moreover have "filter (\<lambda>a. a \<noteq> []) (prefixes_at_sep [] p) \<noteq> []"
    using ne by (simp add: lineage_def)
  ultimately show ?thesis by (simp add: lineage_def hd_rev)
qed

lemma exec_body_frame:
  assumes "exec_body e p b s = (r, s1)"
  shows "dirs s1 = dirs s \<and> n_open s1 = n_open s \<and> (\<forall>q. q \<noteq> p \<longrightarrow> files s1 q = files s q) \<and>
         dom (files s) \<subseteq> dom (files s1)"
  using assms
  by (cases b) (auto simp: write_py_def put_text_def split: option.splits if_splits)

lemma exec_stmt_frame:
  assumes "exec_stmt e st s = (r, s1)"
  shows "n_open s1 = n_open s \<and> dirs s \<subseteq> dirs s1 \<and> dom (files s) \<subseteq> dom (files s1) \<and>
         (\<exists>evs. journal s1 = journal s @ evs)"
proof (cases st)
  case (Makedirs_if_missing p)
  show ?thesis
  proof (cases "exists_py s p")
    case True
    with assms Makedirs_if_missing show ?thesis by simp
  next
    case False
    with assms Makedirs_if_missing have "makedirs_py e (lineage p) s = (r, s1)" by simp
    from makedirs_py_frame [OF this] show ?thesis by simp
  qed
next
  case (With_open p m b)
  show ?thesis
  proof (cases "p \<in> open_fails e")
    case True
    with assms With_open show ?thesis by (simp add: open_py_def)
  next
    case False
    let ?s0 = "s\<lparr>files := (files s)(p \<mapsto> (case m of Mode_w \<Rightarrow> [] | Mode_a \<Rightarrow> current s p)),
                  n_open := Suc (n_open s), journal := journal s @ [Opened p m]\<rparr>"
    obtain r2 s2 where b: "exec_body e p b ?s0 = (r2, s2)" by (cases "exec_body e p b ?s0")
    with assms With_open False have s1: "s1 = close_py s2" "r = r2"
      by (simp_all add: open_py_def)
    from exec_body_frame [OF b] have "dirs s2 = dirs s" "n_open s2 = Suc (n_open s)"
      "dom (files s) \<subseteq> dom (files s2)" by auto
    moreover have "\<exists>evs. journal s2 = journal s @ evs"
      using b by (cases b) (auto simp: write_py_def put_text_def split: option.splits if_splits)
    ultimately show ?thesis using s1 by (auto simp: close_py_def)
  qed
qed

lemma exec_frame:
  assumes "exec e sts s = (r, s1)"
  shows "n_open s1 = n_open s \<and> dirs s \<subseteq> dirs s1 \<and> dom (files s) \<subseteq> dom (files s1) \<and>
         (\<exists>evs. journal s1 = journal s @ evs)"
  using assms
proof (induction sts arbitrary: s)
  case Nil
  then show ?case by simp
next
  case (Cons st sts)
  obtain r0 s0 where st: "exec_stmt e st s = (r0, s0)" by (cases "exec_stmt e st s")
  note f = exec_stmt_frame [OF st]
  show ?case
  proof (cases r0)
    case None
    with Cons.prems st have "exec e sts s0 = (r, s1)" by simp
    from Cons.IH [OF this] obtain evs where i: "n_open s1 = n_open s0" "dirs s0 \<subseteq> dirs s1"
      "dom (files s0) \<subseteq> dom (files s1)" "journal s1 = journal s0 @ evs" by blast
    from f obtain evs0 where j: "n_open s0 = n_open s" "dirs s \<subseteq> dirs s0"
      "dom (files s) \<subseteq> dom (files s0)" "journal s0 = journal s @ evs0" by blast
    have "journal s1 = journal s @ (evs0 @ evs)" using i(4) j(4) by simp
    then have "\<exists>evs. journal s1 = journal s @ evs" by blast
    moreover have "dirs s \<subseteq> dirs s1" using i(2) j(2) by (rule order_trans [rotated])
    moreover have "dom (files s) \<subseteq> dom (files s1)" using i(3) j(3) by (rule order_trans [rotated])
    ultimately show ?thesis using i(1) j(1) by simp
  next
    case (Some x)
    with Cons.prems st have "s1 = s0" by simp
    with f show ?thesis by simp
  qed
qed

lemma stmt_again_ok:
  assumes "exec_stmt e st s = (None, s1)" and "opens_for_writing st"
    and "dirs s1 \<subseteq> dirs t" and "dom (files s) \<subseteq> dom (files t)"
  shows "\<exists>t1. exec_stmt e st t = (None, t1) \<and> dirs t1 = dirs t \<and> n_open t1 = n_open t \<and>
           journal t1 = journal t @ drop (length (journal s)) (journal s1) \<and>
           (\<forall>q. files t1 q = files s1 q \<or> (files t1 q = files t q \<and> files s1 q = files s q))"
proof (cases st)
  case (Makedirs_if_missing p)
  have same: "exists_py t p \<or> lineage p = [] \<Longrightarrow> exec_stmt e st t = (None, t)"
    using Makedirs_if_missing by auto
  show ?thesis
  proof (cases "exists_py s p")
    case True
    with assms Makedirs_if_missing have "s1 = s" by simp
    moreover from True assms(3,4) \<open>s1 = s\<close> have "exists_py t p" by (auto simp: exists_py_def)
    ultimately show ?thesis using same by simp
  next
    case False
    with assms Makedirs_if_missing have mk: "makedirs_py e (lineage p) s = (None, s1)" by simp
    note f = makedirs_py_frame [OF mk]
    show ?thesis
    proof (cases "lineage p")
      case Nil
      with mk have "s1 = s" by simp
      with same Nil show ?thesis by simp
    next
      case (Cons a as)
      with hd_lineage [of p] have "a = p" by simp
      from mk have "makedirs_py e (a # as) s = (None, s1)" by (simp only: Cons)
      then have "a \<in> dirs s1" by (rule makedirs_py_made)
      with \<open>a = p\<close> have "p \<in> dirs s1" by simp
      with assms(3) have "exists_py t p" by (auto simp: exists_py_def)
      with same f show ?thesis by simp
    qed
  qed
next
  case (With_open p m b)
  with assms(2) have m: "m = Mode_w" by simp
  from assms(1) With_open have nf: "p \<notin> open_fails e"
    by (auto simp: open_py_def split: if_splits)
  show ?thesis
  proof (cases b)
    case (Write wtext)
    with assms(1) With_open m nf have
      s1: "s1 = close_py (put_text p wtext (s\<lparr>files := (files s)(p \<mapsto> []), n_open := Suc (n_open s),
                      journal := journal s @ [Opened p Mode_w]\<rparr>))"
      and lim: "case write_limit e p of None \<Rightarrow> True | Some k \<Rightarrow> length wtext \<le> k"
      by (auto simp: open_py_def write_py_def split: option.splits if_splits)
    let ?t1 = "close_py (put_text p wtext (t\<lparr>files := (files t)(p \<mapsto> []), n_open := Suc (n_open t),
                      journal := journal t @ [Opened p Mode_w]\<rparr>))"
    have "exec_stmt e st t = (None, ?t1)"
      using With_open m nf Write lim
      by (auto simp: open_py_def write_py_def split: option.splits)
    then show ?thesis
      by (intro exI [of _ ?t1]) (simp add: s1 close_py_def put_text_def current_def)
  next
    case (Call_global g)
    with assms(1) With_open m nf have
      s1: "s1 = close_py (s\<lparr>files := (files s)(p \<mapsto> []), n_open := Suc (n_open s),
                      journal := journal s @ [Opened p Mode_w]\<rparr>)"
      and g: "g \<in> set module_globals"
      by (auto simp: open_py_def split: if_splits)
    let ?t1 = "close_py (t\<lparr>files := (files t)(p \<mapsto> []), n_open := Suc (n_open t),
                      journal := journal t @ [Opened p Mode_w]\<rparr>)"
    have "exec_stmt e st t = (None, ?t1)"
      using With_open m nf Call_global g by (simp add: open_py_def)
    then show ?thesis
      by (intro exI [of _ ?t1]) (simp add: s1 close_py_def)
  next
    case (Raise x)
    with assms(1) With_open nf show ?thesis by (simp add: open_py_def)
  qed
qed

subsection \<open>Single-index mode stops at the undefined name\<close>

lemma lineage_source_modules: "lineage ''source/modules'' = [''source/modules'', ''source'']"
  by (simp add: lineage_def)

lemma makedirs_source_modules:
  assumes "''source'' \<notin> mkdir_fails e" "''source/modules'' \<notin> mkdir_fails e"
  shows "\<exists>s1. exec_stmt e (Makedirs_if_missing (source_join ''modules'')) s = (None, s1) \<and>
          files s1 = files s \<and> n_open s1 = n_open s \<and> journal s1 = journal s \<and>
          dirs s \<subseteq> dirs s1 \<and> exists_py s1 ''source/modules'' \<and>
          (\<not> exists_py s ''source/modules'' \<longrightarrow> ''source/modules'' \<in> dirs s1)"
  using assms
  by (auto simp: source_join_def path_join_def lineage_source_modules mkdir_py_def exists_py_def)

lemma gen_module_undefined: "''gen_module'' \<notin> set module_globals"
  by (simp add: module_globals_def)

lemma with_open_gen_module:
  assumes "p \<notin> open_fails e"
  shows "exec_stmt e (With_open p Mode_w (Call_global ''gen_module'')) s =
     (Some (NameError ''gen_module''),
      s\<lparr>files := (files s)(p \<mapsto> []), journal := journal s @ [Opened p Mode_w]\<rparr>)"
  using assms by (simp add: open_py_def close_py_def gen_module_undefined)

lemma all_auto_mod_names_nonempty:
  assumes "tree ''../quantecon'' = Some names" "\<exists>n \<in> set names. fnmatch_module n"
  shows "all_auto_mod_names tree \<noteq> []"
  using assms by (auto simp: all_auto_mod_names_def glob_py_def filter_empty_conv)

text \<open>
  C3. When at least one name in the scanned base directory matches the pattern, and
  making the directories \<open>source\<close>, \<open>source/modules\<close> and opening the first per-module
  file do not fail, \<open>all_auto\<close> ends with \<open>NameError\<close> for \<open>gen_module\<close>, a name bound
  nowhere in the module: by then \<open>source/modules\<close> exists and the first per-module file
  has been opened (created empty or emptied), and that is all that happened to files: no
  text was written to any file and \<open>source/index.rst\<close> was not opened.
\<close>

theorem single_mode_name_error:
  assumes "tree ''../quantecon'' = Some names" and "\<exists>n \<in> set names. fnmatch_module n"
    and "''source'' \<notin> mkdir_fails e" and "''source/modules'' \<notin> mkdir_fails e"
    and "first_module_path tree \<notin> open_fails e"
  shows "\<exists>s'. all_auto tree e s = (Some (NameError ''gen_module''), s') \<and>
           ''gen_module'' \<notin> set module_globals \<and>
           exists_py s' ''source/modules'' \<and>
           (\<not> exists_py s ''source/modules'' \<longrightarrow> ''source/modules'' \<in> dirs s') \<and>
           files s' = (files s)(first_module_path tree \<mapsto> []) \<and>
           journal s' = journal s @ [Opened (first_module_path tree) Mode_w] \<and>
           n_open s' = n_open s"
proof -
  have "all_auto_mod_names tree \<noteq> []"
    using assms(1,2) by (rule all_auto_mod_names_nonempty [of tree names])
  then obtain m ms where
    ms: "all_auto_mod_names tree = m # ms" by (cases "all_auto_mod_names tree") auto
  have p: "first_module_path tree =
      path_join_list ''source'' [''modules'', hd (split_py (CHR ''.'') m) @ ''.rst'']"
    by (simp add: first_module_path_def ms)
  from makedirs_source_modules [OF assms(3,4), of s] obtain s1 where
    s1: "exec_stmt e (Makedirs_if_missing (source_join ''modules'')) s = (None, s1)"
      "files s1 = files s" "n_open s1 = n_open s" "journal s1 = journal s"
      "exists_py s1 ''source/modules''"
      "\<not> exists_py s ''source/modules'' \<longrightarrow> ''source/modules'' \<in> dirs s1"
    by blast
  let ?s' = "s1\<lparr>files := (files s1)(first_module_path tree \<mapsto> []),
                 journal := journal s1 @ [Opened (first_module_path tree) Mode_w]\<rparr>"
  have "all_auto tree e s = (Some (NameError ''gen_module''), ?s')"
    using s1(1) with_open_gen_module [OF assms(5), of s1]
    by (simp add: all_auto_def all_auto_stmts_def ms Let_def p [symmetric])
  moreover have "exists_py ?s' ''source/modules''"
    using s1(5) by (auto simp: exists_py_def)
  ultimately show ?thesis
    using s1 gen_module_undefined by (intro exI [of _ ?s']) simp
qed

lemma fnmatch_b_a: "fnmatch_module ''b.py''" "fnmatch_module ''a.py''"
  by (simp_all add: fnmatch_module_def in_class_def)

lemma names_b_a: "all_auto_mod_names listing_b_a = [''b.py'', ''a.py'']"
  by (simp add: all_auto_mod_names_def glob_py_def listing_b_a_def fnmatch_b_a path_join_def)

theorem single_mode_name_error_witness:
  "\<exists>s'. all_auto listing_b_a quiet_env empty_fs = (Some (NameError ''gen_module''), s') \<and>
        ''source/modules'' \<in> dirs s' \<and>
        files s' = [''source/modules/b.rst'' \<mapsto> []] \<and>
        journal s' = [Opened ''source/modules/b.rst'' Mode_w] \<and> n_open s' = 0"
proof -
  have p: "first_module_path listing_b_a = ''source/modules/b.rst''"
    by (simp add: first_module_path_def names_b_a path_join_list_def path_join_def)
  have "\<exists>s'. all_auto listing_b_a quiet_env empty_fs = (Some (NameError ''gen_module''), s') \<and>
           ''gen_module'' \<notin> set module_globals \<and>
           exists_py s' ''source/modules'' \<and>
           (\<not> exists_py empty_fs ''source/modules'' \<longrightarrow> ''source/modules'' \<in> dirs s') \<and>
           files s' = (files empty_fs)(first_module_path listing_b_a \<mapsto> []) \<and>
           journal s' = journal empty_fs @ [Opened (first_module_path listing_b_a) Mode_w] \<and>
           n_open s' = n_open empty_fs"
    by (rule single_mode_name_error [of listing_b_a "[''b.py'', ''a.py'']"])
      (simp_all add: listing_b_a_def fnmatch_b_a quiet_env_def p [unfolded listing_b_a_def])
  then show ?thesis
    by (auto simp: p empty_fs_def exists_py_def)
qed

subsection \<open>Order of the module names\<close>

text \<open>
  C4. The claim is that the names are sorted in both modes. \<open>model_tool\<close> sorts every
  list (\<open>category_names\<close>), \<open>all_auto\<close> does not: for a base directory listed as
  \<open>b.py\<close>, \<open>a.py\<close> its names stay in that order, the first file it opens is the one of
  \<open>b\<close>, and the inclusion list it builds for the index names \<open>b\<close> before \<open>a\<close>, where
  \<open>model_tool\<close> has \<open>a\<close>, \<open>b\<close> for the same directory.
\<close>

theorem single_mode_uses_listing_order:
  "all_auto_mod_names listing_b_a = [''b.py'', ''a.py''] \<and>
   \<not> sorted (all_auto_mod_names listing_b_a) \<and>
   all_auto_generated (all_auto_mod_names listing_b_a) = ''modules/b\<newline>   modules/a'' \<and>
   fst (all_auto listing_b_a quiet_env empty_fs) = Some (NameError ''gen_module'') \<and>
   journal (snd (all_auto listing_b_a quiet_env empty_fs)) = [Opened ''source/modules/b.rst'' Mode_w] \<and>
   category_names listing_b_a ''../quantecon'' = [''a'', ''b'']"
proof -
  have run: "all_auto listing_b_a quiet_env empty_fs =
      (Some (NameError ''gen_module''),
       \<lparr>dirs = {''source/modules'', ''source''}, files = [''source/modules/b.rst'' \<mapsto> []],
        n_open = 0, journal = [Opened ''source/modules/b.rst'' Mode_w]\<rparr>)"
    by (simp add: all_auto_def all_auto_stmts_def names_b_a source_join_def path_join_def
        path_join_list_def lineage_def exists_py_def mkdir_py_def open_py_def close_py_def
        module_globals_def quiet_env_def empty_fs_def)
  have cat: "category_names listing_b_a ''../quantecon'' = [''a'', ''b'']"
    by (simp add: category_names_def glob_py_def listing_b_a_def fnmatch_b_a path_join_def
        bare_name_def)
  show ?thesis
    by (simp add: names_b_a all_auto_generated_def run cat)
qed

subsection \<open>Running twice\<close>

lemma stmt_again_fail:
  assumes "exec_stmt e st s = (Some x, s1)" and "opens_for_writing st"
    and "dirs t = dirs s1" and "dom (files s) \<subseteq> dom (files t)"
    and "\<forall>q. files t q = files s q \<or> files t q = files s1 q"
  shows "\<exists>t1. exec_stmt e st t = (Some x, t1) \<and> dirs t1 = dirs s1 \<and> files t1 = files s1 \<and>
           n_open t1 = n_open t \<and>
           journal t1 = journal t @ drop (length (journal s)) (journal s1)"
proof (cases st)
  case (Makedirs_if_missing p)
  from assms(1) Makedirs_if_missing have ne: "\<not> exists_py s p"
    and mk: "makedirs_py e (lineage p) s = (Some x, s1)"
    by (auto split: if_splits)
  note f = makedirs_py_frame [OF mk]
  from mk have l: "lineage p \<noteq> []" by auto
  with hd_lineage [of p] ne have "lineage p \<noteq> [] \<longrightarrow> \<not> exists_py s (hd (lineage p))" by simp
  from makedirs_py_again [OF distinct_lineage mk this] l hd_lineage [of p]
  have again: "makedirs_py e (lineage p) s1 = (Some x, s1)" "\<not> exists_py s1 p" by auto
  from assms(5) f have ft: "files t = files s1" by auto
  with assms(3) again(2) have net: "\<not> exists_py t p" by (simp add: exists_py_def)
  have "makedirs_py e (lineage p) t =
      (fst (makedirs_py e (lineage p) s1), t\<lparr>dirs := dirs (snd (makedirs_py e (lineage p) s1))\<rparr>)"
    by (rule makedirs_py_cong) (simp_all add: assms(3) ft)
  with again(1) assms(3) have "makedirs_py e (lineage p) t = (Some x, t)" by simp
  with net Makedirs_if_missing have "exec_stmt e st t = (Some x, t)" by simp
  with assms(3) ft f show ?thesis by simp
next
  case (With_open p m b)
  with assms(2) have m: "m = Mode_w" by simp
  show ?thesis
  proof (cases "p \<in> open_fails e")
    case True
    with assms(1) With_open have "s1 = s" "x = IOError p" by (simp_all add: open_py_def)
    moreover from assms(5) \<open>s1 = s\<close> have "files t = files s" by auto
    ultimately show ?thesis using True With_open assms(3) by (simp add: open_py_def)
  next
    case False
    let ?s0 = "s\<lparr>files := (files s)(p \<mapsto> []), n_open := Suc (n_open s),
                  journal := journal s @ [Opened p Mode_w]\<rparr>"
    let ?t0 = "t\<lparr>files := (files t)(p \<mapsto> []), n_open := Suc (n_open t),
                  journal := journal t @ [Opened p Mode_w]\<rparr>"
    have others: "q \<noteq> p \<Longrightarrow> files s1 q = files s q" for q
      using assms(1) With_open m False
      by (cases b) (auto simp: open_py_def close_py_def write_py_def put_text_def
          split: option.splits if_splits)
    with assms(5) have tq: "q \<noteq> p \<Longrightarrow> files t q = files s1 q" for q by metis
    have "\<exists>c evs. s1 = s\<lparr>files := (files s)(p \<mapsto> c), journal := journal s @ evs\<rparr> \<and>
        exec_stmt e st t = (Some x, t\<lparr>files := (files t)(p \<mapsto> c), journal := journal t @ evs\<rparr>)"
    proof (cases b)
      case (Write wtext)
      with assms(1) With_open m False obtain k where
        k: "write_limit e p = Some k" "\<not> length wtext \<le> k"
        by (auto simp: open_py_def write_py_def split: option.splits if_splits)
      with assms(1) With_open m False Write have
        "s1 = s\<lparr>files := (files s)(p \<mapsto> take k wtext),
               journal := journal s @ [Opened p Mode_w, Wrote p (take k wtext)]\<rparr>" "x = IOError p"
        by (simp_all add: open_py_def write_py_def put_text_def close_py_def current_def)
      moreover have "exec_stmt e st t = (Some (IOError p), t\<lparr>files := (files t)(p \<mapsto> take k wtext),
               journal := journal t @ [Opened p Mode_w, Wrote p (take k wtext)]\<rparr>)"
        using With_open m False Write k
        by (simp add: open_py_def write_py_def put_text_def close_py_def current_def)
      ultimately show ?thesis by blast
    next
      case (Call_global g)
      with assms(1) With_open m False have g: "g \<notin> set module_globals"
        by (auto simp: open_py_def split: if_splits)
      with assms(1) With_open m False Call_global have
        "s1 = s\<lparr>files := (files s)(p \<mapsto> []), journal := journal s @ [Opened p Mode_w]\<rparr>"
        "x = NameError g"
        by (simp_all add: open_py_def close_py_def)
      moreover have "exec_stmt e st t = (Some (NameError g), t\<lparr>files := (files t)(p \<mapsto> []),
               journal := journal t @ [Opened p Mode_w]\<rparr>)"
        using With_open m False Call_global g by (simp add: open_py_def close_py_def)
      ultimately show ?thesis by blast
    next
      case (Raise y)
      with assms(1) With_open m False have
        "s1 = s\<lparr>files := (files s)(p \<mapsto> []), journal := journal s @ [Opened p Mode_w]\<rparr>" "x = y"
        by (simp_all add: open_py_def close_py_def)
      moreover have "exec_stmt e st t = (Some y, t\<lparr>files := (files t)(p \<mapsto> []),
               journal := journal t @ [Opened p Mode_w]\<rparr>)"
        using With_open m False Raise by (simp add: open_py_def close_py_def)
      ultimately show ?thesis by blast
    qed
    then obtain c evs where
      s1: "s1 = s\<lparr>files := (files s)(p \<mapsto> c), journal := journal s @ evs\<rparr>" and
      t1: "exec_stmt e st t = (Some x, t\<lparr>files := (files t)(p \<mapsto> c), journal := journal t @ evs\<rparr>)"
      by blast
    have "(files t)(p \<mapsto> c) = files s1"
    proof
      fix q show "((files t)(p \<mapsto> c)) q = files s1 q"
        using tq [of q] s1 by (cases "q = p") simp_all
    qed
    with t1 s1 assms(3) show ?thesis by simp
  qed
qed

lemma exec_again:
  assumes "list_all opens_for_writing sts" and "exec e sts s = (r, s')"
    and "dirs t = dirs s'" and "dom (files s) \<subseteq> dom (files t)"
    and "\<forall>q. files t q = files s q \<or> files t q = files s' q"
  shows "\<exists>t'. exec e sts t = (r, t') \<and> dirs t' = dirs s' \<and> files t' = files s' \<and>
           n_open t' = n_open t \<and>
           journal t' = journal t @ drop (length (journal s)) (journal s')"
  using assms
proof (induction sts arbitrary: s t)
  case Nil
  then have "s' = s" "r = None" by simp_all
  with Nil.prems(5) have "files t = files s'" by auto
  with Nil.prems(3) \<open>s' = s\<close> \<open>r = None\<close> show ?case by simp
next
  case (Cons st sts)
  from Cons.prems(1) have w: "opens_for_writing st" "list_all opens_for_writing sts" by simp_all
  obtain r0 s0 where st: "exec_stmt e st s = (r0, s0)" by (cases "exec_stmt e st s")
  show ?case
  proof (cases r0)
    case (Some x)
    with Cons.prems(2) st have eq: "s' = s0" "r = Some x" by simp_all
    from stmt_again_fail [OF st [unfolded Some] w(1) Cons.prems(3) [unfolded eq(1)] Cons.prems(4)
        Cons.prems(5) [unfolded eq(1)]]
    obtain t1 where "exec_stmt e st t = (Some x, t1)" "dirs t1 = dirs s0" "files t1 = files s0"
      "n_open t1 = n_open t" "journal t1 = journal t @ drop (length (journal s)) (journal s0)"
      by blast
    with eq show ?thesis by simp
  next
    case None
    with Cons.prems(2) st have rest: "exec e sts s0 = (r, s')" by simp
    from exec_frame [OF rest] obtain evs where
      fr: "dirs s0 \<subseteq> dirs s'" "journal s' = journal s0 @ evs" by blast
    from exec_stmt_frame [OF st] obtain evs0 where fr0: "journal s0 = journal s @ evs0" by blast
    from fr(1) Cons.prems(3) have sub: "dirs s0 \<subseteq> dirs t" by simp
    from stmt_again_ok [OF st [unfolded None] w(1) sub Cons.prems(4)]
    obtain t1 where t1: "exec_stmt e st t = (None, t1)" "dirs t1 = dirs t" "n_open t1 = n_open t"
      "journal t1 = journal t @ drop (length (journal s)) (journal s0)"
      "\<forall>q. files t1 q = files s0 q \<or> (files t1 q = files t q \<and> files s0 q = files s q)"
      by blast
    have a: "dirs t1 = dirs s'" using t1(2) Cons.prems(3) by simp
    have b: "dom (files s0) \<subseteq> dom (files t1)"
    proof
      fix q assume q: "q \<in> dom (files s0)"
      from t1(5) have "files t1 q = files s0 q \<or> (files t1 q = files t q \<and> files s0 q = files s q)"
        by blast
      then show "q \<in> dom (files t1)"
      proof
        assume "files t1 q = files s0 q"
        with q show ?thesis by (auto simp: dom_def)
      next
        assume h: "files t1 q = files t q \<and> files s0 q = files s q"
        with q have "q \<in> dom (files s)" by (auto simp: dom_def)
        with Cons.prems(4) have "q \<in> dom (files t)" by blast
        with h show ?thesis by (auto simp: dom_def)
      qed
    qed
    have c: "\<forall>q. files t1 q = files s0 q \<or> files t1 q = files s' q"
    proof
      fix q
      from t1(5) have "files t1 q = files s0 q \<or> (files t1 q = files t q \<and> files s0 q = files s q)"
        by blast
      moreover from Cons.prems(5) have "files t q = files s q \<or> files t q = files s' q" by blast
      ultimately show "files t1 q = files s0 q \<or> files t1 q = files s' q" by auto
    qed
    from Cons.IH [OF w(2) rest a b c] obtain t' where
      t': "exec e sts t1 = (r, t')" "dirs t' = dirs s'" "files t' = files s'" "n_open t' = n_open t1"
      "journal t' = journal t1 @ drop (length (journal s0)) (journal s')" by blast
    have "journal t' = journal t @ drop (length (journal s)) (journal s')"
      using t'(5) t1(4) fr(2) fr0 by simp
    with t' t1 show ?thesis by simp
  qed
qed

lemma main_exec: "main argv tree e s = exec e (main_stmts argv tree) s"
  by (simp add: main_def main_stmts_def all_auto_def model_tool_def)

lemma write_modules_w: "list_all opens_for_writing (write_modules folder template names)"
  by (simp add: write_modules_def list_all_iff Let_def)

lemma all_auto_stmts_w: "list_all opens_for_writing (all_auto_stmts tree)"
  by (auto simp: all_auto_stmts_def Let_def list_all_iff)

lemma model_tool_stmts_w: "list_all opens_for_writing (model_tool_stmts tree)"
  by (simp add: model_tool_stmts_def Let_def write_modules_w write_category_index_def)

lemma main_stmts_w: "list_all opens_for_writing (main_stmts argv tree)"
  by (simp add: main_stmts_def all_auto_stmts_w model_tool_stmts_w)

text \<open>
  C5. A second run on what the first run left, with the same scanned tree and the same
  environment, ends as the first did (normally, or with the same exception), leaves the
  same directories and the same files with the same bytes, and its journal (every file it
  opened and every text it wrote, in order) is the journal of the first run.
\<close>

theorem rerun_is_identical:
  assumes "main argv tree e s = (r, s')" and "journal s = []"
  shows "main argv tree e (s'\<lparr>journal := []\<rparr>) = (r, s')"
proof -
  from assms(1) have ex: "exec e (main_stmts argv tree) s = (r, s')" by (simp add: main_exec)
  from exec_frame [OF ex] have d: "dom (files s) \<subseteq> dom (files (s'\<lparr>journal := []\<rparr>))" by simp
  from exec_again [OF main_stmts_w ex, of "s'\<lparr>journal := []\<rparr>"] d
  obtain t' where t': "exec e (main_stmts argv tree) (s'\<lparr>journal := []\<rparr>) = (r, t')"
    "dirs t' = dirs s'" "files t' = files s'" "n_open t' = n_open s'"
    "journal t' = drop (length (journal s)) (journal s')"
    by auto
  from t' assms(2) have "t' = s'" by (cases t', cases s') simp
  with t'(1) show ?thesis by (simp add: main_exec)
qed

theorem rerun_is_identical_witness:
  "journal empty_fs = [] \<and>
   main [''qe_apidoc.py''] listing_b_a quiet_env
     ((snd (main [''qe_apidoc.py''] listing_b_a quiet_env empty_fs))\<lparr>journal := []\<rparr>) =
   main [''qe_apidoc.py''] listing_b_a quiet_env empty_fs"
proof -
  have j: "journal empty_fs = []" by (simp add: empty_fs_def)
  have m: "main [''qe_apidoc.py''] listing_b_a quiet_env empty_fs =
      (fst (main [''qe_apidoc.py''] listing_b_a quiet_env empty_fs),
       snd (main [''qe_apidoc.py''] listing_b_a quiet_env empty_fs))" by simp
  from rerun_is_identical [OF m j] j show ?thesis by simp
qed

subsection \<open>The statements of split-index mode, and what a completed run leaves in a file\<close>

lemma bare_name_no_slash: "CHR ''/'' \<notin> set (bare_name x)"
  using last_split_no_sep [of "CHR ''/''" x] set_take_subset
  by (fastforce simp: bare_name_def Let_def)

lemma category_names_no_slash: "md \<in> set (category_names tree d) \<Longrightarrow> CHR ''/'' \<notin> set md"
  by (auto simp: category_names_def bare_name_no_slash)

lemma hd_not_sep: "c \<notin> set md \<Longrightarrow> md \<noteq> [] \<longrightarrow> hd md \<noteq> c"
  by (cases md) auto

lemma module_paths:
  assumes "CHR ''/'' \<notin> set md"
  shows "path_join_list ''source'' [''markov'', md @ ''.rst''] = ''source/markov/'' @ md @ ''.rst''"
    "path_join_list ''source'' [''models'', md @ ''.rst''] = ''source/models/'' @ md @ ''.rst''"
    "path_join_list ''source'' [''models'', ''solow'', md @ ''.rst''] = ''source/models/solow/'' @ md @ ''.rst''"
    "path_join_list ''source'' [''random'', md @ ''.rst''] = ''source/random/'' @ md @ ''.rst''"
    "path_join_list ''source'' [''tools'', md @ ''.rst''] = ''source/tools/'' @ md @ ''.rst''"
    "path_join_list ''source'' [''util'', md @ ''.rst''] = ''source/util/'' @ md @ ''.rst''"
    "path_join_list ''source'' [''modules'', md @ ''.rst''] = ''source/modules/'' @ md @ ''.rst''"
  using hd_not_sep [OF assms] by (simp_all add: path_join_list_def path_join_def hd_append)

lemma source_paths:
  "source_join (''markov'' @ ''.rst'') = ''source/markov.rst''"
  "source_join (''models'' @ ''.rst'') = ''source/models.rst''"
  "source_join (''random'' @ ''.rst'') = ''source/random.rst''"
  "source_join (''tools'' @ ''.rst'') = ''source/tools.rst''"
  "source_join (''util'' @ ''.rst'') = ''source/util.rst''"
  "source_join ''index.rst'' = ''source/index.rst''"
  "source_join ''modules'' = ''source/modules''"
  "source_join ''markov'' = ''source/markov''"
  "source_join ''models'' = ''source/models''"
  "source_join ''models/solow'' = ''source/models/solow''"
  "source_join ''random'' = ''source/random''"
  "source_join ''tools'' = ''source/tools''"
  "source_join ''util'' = ''source/util''"
  by (simp_all add: source_join_def path_join_def)

lemma write_modules_closed:
  assumes "\<forall>md \<in> set names. CHR ''/'' \<notin> set md"
  shows "write_modules [''markov''] markov_module_template names = map (module_stmt ''markov'' ''markov.'') names"
    "write_modules [''models''] model_module_template names = map (module_stmt ''models'' ''models.'') names"
    "write_modules [''models'', ''solow''] solow_model_module_template names = map (module_stmt ''models/solow'' ''models.solow.'') names"
    "write_modules [''random''] random_module_template names = map (module_stmt ''random'' ''random.'') names"
    "write_modules [''tools''] module_template names = map (module_stmt ''tools'' []) names"
    "write_modules [''util''] util_module_template names = map (module_stmt ''util'' ''util.'') names"
  using assms
  by (auto simp: write_modules_def module_stmt_def write_format_def format_module_templates
      module_paths Let_def)

lemma toc_tree_list_lookup:
  "map_of (toc_tree_list markov models random tools util) ''markov'' =
     Some (''markov/'' @ join_py ''\<newline>   markov/'' markov)"
  "map_of (toc_tree_list markov models random tools util) ''models'' =
     Some (''models/'' @ join_py ''\<newline>   models/'' models @ ''\<newline>   solow/'')"
  "map_of (toc_tree_list markov models random tools util) ''random'' =
     Some (''random/'' @ join_py ''\<newline>   random/'' random)"
  "map_of (toc_tree_list markov models random tools util) ''tools'' =
     Some (''tools/'' @ join_py ''\<newline>   tools/'' tools)"
  "map_of (toc_tree_list markov models random tools util) ''util'' =
     Some (''util/'' @ join_py ''\<newline>   util/'' util)"
  by (simp_all add: toc_tree_list_def Let_def)

lemma write_category_index_closed:
  assumes "map_of toc f_name = Some listed"
    and "source_join (f_name @ ''.rst'') = ''source/'' @ f_name @ ''.rst''"
  shows "write_category_index toc f_name = index_stmt f_name listed"
  using assms
  by (simp add: write_category_index_def write_format_def format_split_file index_doc_def
      index_stmt_def)

lemma category_index_stmts:
  "map (write_category_index (toc_tree_list markov models random tools util))
     [''markov'', ''models'', ''random'', ''tools'', ''util''] =
   [index_stmt ''markov'' (''markov/'' @ join_py ''\<newline>   markov/'' markov),
    index_stmt ''models'' (''models/'' @ join_py ''\<newline>   models/'' models @ ''\<newline>   solow/''),
    index_stmt ''random'' (''random/'' @ join_py ''\<newline>   random/'' random),
    index_stmt ''tools'' (''tools/'' @ join_py ''\<newline>   tools/'' tools),
    index_stmt ''util'' (''util/'' @ join_py ''\<newline>   util/'' util)]"
proof -
  let ?toc = "toc_tree_list markov models random tools util"
  have "write_category_index ?toc ''markov'' =
      index_stmt ''markov'' (''markov/'' @ join_py ''\<newline>   markov/'' markov)"
    by (rule write_category_index_closed) (simp_all add: toc_tree_list_lookup source_paths [simplified])
  moreover have "write_category_index ?toc ''models'' =
      index_stmt ''models'' (''models/'' @ join_py ''\<newline>   models/'' models @ ''\<newline>   solow/'')"
    by (rule write_category_index_closed) (simp_all add: toc_tree_list_lookup source_paths [simplified])
  moreover have "write_category_index ?toc ''random'' =
      index_stmt ''random'' (''random/'' @ join_py ''\<newline>   random/'' random)"
    by (rule write_category_index_closed) (simp_all add: toc_tree_list_lookup source_paths [simplified])
  moreover have "write_category_index ?toc ''tools'' =
      index_stmt ''tools'' (''tools/'' @ join_py ''\<newline>   tools/'' tools)"
    by (rule write_category_index_closed) (simp_all add: toc_tree_list_lookup source_paths [simplified])
  moreover have "write_category_index ?toc ''util'' =
      index_stmt ''util'' (''util/'' @ join_py ''\<newline>   util/'' util)"
    by (rule write_category_index_closed) (simp_all add: toc_tree_list_lookup source_paths [simplified])
  ultimately show ?thesis by simp
qed

lemma model_tool_stmts_closed:
  "model_tool_stmts tree =
     map Makedirs_if_missing [''source/markov'', ''source/models'', ''source/models/solow'',
       ''source/random'', ''source/tools'', ''source/util''] @
     map (module_stmt ''markov'' ''markov.'') (category_names tree ''../quantecon/markov'') @
     map (module_stmt ''models'' ''models.'') (category_names tree ''../quantecon/models'') @
     map (module_stmt ''models/solow'' ''models.solow.'') (category_names tree ''../quantecon/models/solow'') @
     map (module_stmt ''random'' ''random.'') (category_names tree ''../quantecon/random'') @
     map (module_stmt ''tools'' []) (category_names tree ''../quantecon'') @
     map (module_stmt ''util'' ''util.'') (category_names tree ''../quantecon/util'') @
     [With_open ''source/index.rst'' Mode_w (Write split_index_template)] @
     [index_stmt ''markov'' (''markov/'' @ join_py ''\<newline>   markov/'' (category_names tree ''../quantecon/markov'')),
      index_stmt ''models'' (''models/'' @ join_py ''\<newline>   models/'' (category_names tree ''../quantecon/models'') @ ''\<newline>   solow/''),
      index_stmt ''random'' (''random/'' @ join_py ''\<newline>   random/'' (category_names tree ''../quantecon/random'')),
      index_stmt ''tools'' (''tools/'' @ join_py ''\<newline>   tools/'' (category_names tree ''../quantecon'')),
      index_stmt ''util'' (''util/'' @ join_py ''\<newline>   util/'' (category_names tree ''../quantecon/util''))]"
proof -
  have ns: "\<forall>md \<in> set (category_names tree d). CHR ''/'' \<notin> set md" for d
    using category_names_no_slash by blast
  have dirs: "map (\<lambda>folder. Makedirs_if_missing (source_join folder))
      [''markov'', ''models'', ''models/solow'', ''random'', ''tools'', ''util''] =
     map Makedirs_if_missing [''source/markov'', ''source/models'', ''source/models/solow'',
       ''source/random'', ''source/tools'', ''source/util'']"
    by (simp add: source_paths)
  show ?thesis
    unfolding model_tool_stmts_def Let_def
    by (simp only: write_modules_closed [OF ns] category_index_stmts dirs source_paths)
qed

lemma with_open_done:
  assumes "exec_stmt e (With_open p Mode_w b) s = (None, s0)"
  shows "files s0 p = Some (written_text b)"
  using assms
  by (cases b)
    (auto simp: open_py_def close_py_def write_py_def put_text_def current_def
      split: if_splits option.splits)

lemma other_path_kept:
  assumes "exec_stmt e st s = (r, s0)" and "\<forall>m b. st \<noteq> With_open p m b"
  shows "files s0 p = files s p"
proof (cases st)
  case (Makedirs_if_missing q)
  with assms(1) show ?thesis
    using makedirs_py_frame [of e "lineage q" s r s0] by (auto split: if_splits)
next
  case (With_open q m b)
  with assms(2) have "q \<noteq> p" by auto
  with assms(1) With_open show ?thesis
    by (cases b)
      (auto simp: open_py_def close_py_def write_py_def put_text_def
        split: if_splits option.splits)
qed

lemma exec_final_content_aux:
  assumes "exec e sts s = (None, s')" and "list_all opens_for_writing sts"
  shows "(\<exists>b'. With_open p Mode_w b' \<in> set sts \<and> files s' p = Some (written_text b')) \<or>
         ((\<forall>m b. With_open p m b \<notin> set sts) \<and> files s' p = files s p)"
  using assms
proof (induction sts arbitrary: s)
  case Nil
  then show ?case by simp
next
  case (Cons st sts)
  obtain r0 s0 where st: "exec_stmt e st s = (r0, s0)" by (cases "exec_stmt e st s")
  with Cons.prems(1) have r0: "r0 = None" and rest: "exec e sts s0 = (None, s')"
    by (cases r0; simp)+
  from Cons.prems(2) have w: "opens_for_writing st" "list_all opens_for_writing sts" by simp_all
  from Cons.IH [OF rest w(2)] consider
    (later) b' where "With_open p Mode_w b' \<in> set sts" "files s' p = Some (written_text b')"
    | (none) "\<forall>m b. With_open p m b \<notin> set sts" "files s' p = files s0 p"
    by blast
  then show ?case
  proof cases
    case later
    then show ?thesis by auto
  next
    case none
    show ?thesis
    proof (cases "\<exists>m b. st = With_open p m b")
      case True
      then obtain m b where eq: "st = With_open p m b" by blast
      with w(1) have m: "m = Mode_w" by simp
      from st r0 eq m have "files s0 p = Some (written_text b)"
        using with_open_done by blast
      with none eq m show ?thesis by auto
    next
      case False
      with other_path_kept [OF st] have "files s0 p = files s p" by blast
      with none False show ?thesis by auto
    qed
  qed
qed

lemma exec_final_content:
  assumes "exec e sts s = (None, s')" and "list_all opens_for_writing sts"
    and "With_open p m b \<in> set sts"
  shows "\<exists>b'. With_open p Mode_w b' \<in> set sts \<and> files s' p = Some (written_text b')"
  using exec_final_content_aux [OF assms(1,2), of p] assms(3) by blast

lemma join_py_prefixed:
  "names \<noteq> [] \<Longrightarrow> pre @ join_py (sep @ pre) names = join_py sep (map ((@) pre) names)"
  by (induction "sep @ pre" names rule: join_py.induct) simp_all

lemma fnmatch_examples: "fnmatch_module ''ergodicity.py''" "fnmatch_module ''lucastree.py''"
  by (simp_all add: fnmatch_module_def in_class_def)

lemma bare_name_examples:
  "bare_name (path_join ''../quantecon/markov'' ''ergodicity.py'') = ''ergodicity''"
  "bare_name (path_join ''../quantecon/models'' ''lucastree.py'') = ''lucastree''"
  by (simp_all add: bare_name_def path_join_def)

lemma category_names_member:
  assumes "tree d = Some names" and "n \<in> set names" and "fnmatch_module n"
  shows "bare_name (path_join d n) \<in> set (category_names tree d)"
  using assms by (auto simp: category_names_def glob_py_def)

lemma rst_names:
  "md @ ''.rst'' = ''ergodicity.rst'' \<longleftrightarrow> md = ''ergodicity''"
  "''ergodicity.rst'' = md @ ''.rst'' \<longleftrightarrow> md = ''ergodicity''"
  "md @ ''.rst'' = ''lucastree.rst'' \<longleftrightarrow> md = ''lucastree''"
  "''lucastree.rst'' = md @ ''.rst'' \<longleftrightarrow> md = ''lucastree''"
  using append_same_eq [of md "''.rst''" "''ergodicity''"]
    append_same_eq [of md "''.rst''" "''lucastree''"]
  by auto

lemma model_tool_file:
  assumes "model_tool tree e s = (None, s')" and "With_open p m b \<in> set (model_tool_stmts tree)"
  shows "\<exists>b'. With_open p Mode_w b' \<in> set (model_tool_stmts tree) \<and>
           files s' p = Some (written_text b')"
  using assms exec_final_content [OF _ model_tool_stmts_w]
  by (simp add: model_tool_def)

lemma stmts_on_ergodicity:
  assumes "With_open ''source/markov/ergodicity.rst'' m b \<in> set (model_tool_stmts tree)"
  shows "b = Write (module_doc ''markov.'' ''ergodicity'')"
  using assms
  by (auto simp: model_tool_stmts_closed module_stmt_def index_stmt_def rst_names)

lemma stmts_on_lucastree:
  assumes "With_open ''source/models/lucastree.rst'' m b \<in> set (model_tool_stmts tree)"
  shows "b = Write (module_doc ''models.'' ''lucastree'')"
  using assms
  by (auto simp: model_tool_stmts_closed module_stmt_def index_stmt_def rst_names)

lemma stmts_on_markov_index:
  assumes "With_open ''source/markov.rst'' m b \<in> set (model_tool_stmts tree)"
  shows "b = Write (index_doc ''markov''
           (''markov/'' @ join_py ''\<newline>   markov/'' (category_names tree ''../quantecon/markov'')))"
  using assms
  by (auto simp: model_tool_stmts_closed module_stmt_def index_stmt_def)

lemma makedirs_py_quiet:
  assumes "distinct l" and "l \<noteq> [] \<longrightarrow> \<not> exists_py s (hd l)" and "mkdir_fails e = {}"
  shows "fst (makedirs_py e l s) = None"
  using assms
proof (induction l arbitrary: s)
  case Nil
  then show ?case by simp
next
  case (Cons name heads)
  from Cons.prems have nm: "\<not> exists_py s name" "name \<notin> set heads" "distinct heads" by auto
  show ?case
  proof (cases "heads \<noteq> [] \<and> \<not> exists_py s (hd heads)")
    case True
    obtain r0 s0 where rec: "makedirs_py e heads s = (r0, s0)" by (cases "makedirs_py e heads s")
    from Cons.IH [OF nm(3) _ Cons.prems(3), of s] True rec have r0: "r0 = None" by simp
    from makedirs_py_frame [OF rec] nm have "\<not> exists_py s0 name"
      by (auto simp: exists_py_def)
    with True rec r0 Cons.prems(3) show ?thesis by (simp add: mkdir_py_def)
  next
    case False
    with nm Cons.prems(3) show ?thesis by (auto simp: mkdir_py_def)
  qed
qed

lemma exec_stmt_quiet:
  assumes "plain st"
  shows "fst (exec_stmt quiet_env st s) = None"
proof (cases st)
  case (Makedirs_if_missing p)
  show ?thesis
  proof (cases "exists_py s p")
    case True
    with Makedirs_if_missing show ?thesis by simp
  next
    case False
    have "fst (makedirs_py quiet_env (lineage p) s) = None"
      using False hd_lineage [of p]
      by (intro makedirs_py_quiet distinct_lineage) (auto simp: quiet_env_def)
    with False Makedirs_if_missing show ?thesis by simp
  qed
next
  case (With_open p m b)
  with assms show ?thesis
    by (cases b) (simp_all add: open_py_def write_py_def quiet_env_def)
qed

lemma exec_quiet:
  assumes "list_all plain sts"
  shows "fst (exec quiet_env sts s) = None"
  using assms
proof (induction sts arbitrary: s)
  case Nil
  then show ?case by simp
next
  case (Cons st sts)
  obtain r0 s0 where st: "exec_stmt quiet_env st s = (r0, s0)"
    by (cases "exec_stmt quiet_env st s")
  with exec_stmt_quiet [of st s] Cons.prems have "r0 = None" by simp
  with st Cons show ?case by simp
qed

lemma model_tool_stmts_plain: "list_all plain (model_tool_stmts tree)"
  by (auto simp: model_tool_stmts_closed module_stmt_def index_stmt_def list_all_iff)

lemma model_tool_quiet: "fst (model_tool tree quiet_env s) = None"
  by (simp add: model_tool_def exec_quiet model_tool_stmts_plain)

subsection \<open>The end-to-end example of split-index mode\<close>

lemma example_names:
  "category_names example_tree ''../quantecon/markov'' = [''ergodicity'']"
  "category_names example_tree ''../quantecon/models'' = [''lucastree'']"
  "category_names example_tree ''../quantecon/models/solow'' = []"
  "category_names example_tree ''../quantecon/random'' = []"
  "category_names example_tree ''../quantecon'' = []"
  "category_names example_tree ''../quantecon/util'' = []"
  by (simp_all add: category_names_def glob_py_def example_tree_def fnmatch_examples
      bare_name_examples)

lemma ergodicity_document:
  assumes "tree ''../quantecon/markov'' = Some markov_files"
    and "''ergodicity.py'' \<in> set markov_files"
    and "model_tool tree e s = (None, s')"
  shows "files s' ''source/markov/ergodicity.rst'' = Some (module_doc ''markov.'' ''ergodicity'')"
proof -
  from category_names_member [of tree "''../quantecon/markov''" markov_files, OF assms(1,2) fnmatch_examples(1)]
  have "''ergodicity'' \<in> set (category_names tree ''../quantecon/markov'')"
    by (simp add: bare_name_examples)
  then have "With_open ''source/markov/ergodicity.rst'' Mode_w
      (Write (module_doc ''markov.'' ''ergodicity'')) \<in> set (model_tool_stmts tree)"
    by (force simp: model_tool_stmts_closed module_stmt_def)
  from model_tool_file [OF assms(3) this] obtain b' where
    "With_open ''source/markov/ergodicity.rst'' Mode_w b' \<in> set (model_tool_stmts tree)"
    "files s' ''source/markov/ergodicity.rst'' = Some (written_text b')" by blast
  with stmts_on_ergodicity show ?thesis by fastforce
qed

lemma lucastree_document:
  assumes "tree ''../quantecon/models'' = Some model_files"
    and "''lucastree.py'' \<in> set model_files"
    and "model_tool tree e s = (None, s')"
  shows "files s' ''source/models/lucastree.rst'' = Some (module_doc ''models.'' ''lucastree'')"
proof -
  from category_names_member [of tree "''../quantecon/models''" model_files, OF assms(1,2) fnmatch_examples(2)]
  have "''lucastree'' \<in> set (category_names tree ''../quantecon/models'')"
    by (simp add: bare_name_examples)
  then have "With_open ''source/models/lucastree.rst'' Mode_w
      (Write (module_doc ''models.'' ''lucastree'')) \<in> set (model_tool_stmts tree)"
    by (force simp: model_tool_stmts_closed module_stmt_def)
  from model_tool_file [OF assms(3) this] obtain b' where
    "With_open ''source/models/lucastree.rst'' Mode_w b' \<in> set (model_tool_stmts tree)"
    "files s' ''source/models/lucastree.rst'' = Some (written_text b')" by blast
  with stmts_on_lucastree show ?thesis by fastforce
qed

lemma markov_index_document:
  assumes "model_tool tree e s = (None, s')"
  shows "files s' ''source/markov.rst'' = Some (index_doc ''markov''
           (''markov/'' @ join_py ''\<newline>   markov/'' (category_names tree ''../quantecon/markov'')))"
proof -
  have "With_open ''source/markov.rst'' Mode_w (Write (index_doc ''markov''
           (''markov/'' @ join_py ''\<newline>   markov/'' (category_names tree ''../quantecon/markov''))))
         \<in> set (model_tool_stmts tree)"
    by (simp add: model_tool_stmts_closed index_stmt_def)
  from model_tool_file [OF assms this] obtain b' where
    "With_open ''source/markov.rst'' Mode_w b' \<in> set (model_tool_stmts tree)"
    "files s' ''source/markov.rst'' = Some (written_text b')" by blast
  with stmts_on_markov_index show ?thesis by fastforce
qed

text \<open>
  C6 (as amended). When the scanned tree has \<open>markov/ergodicity.py\<close> and
  \<open>models/lucastree.py\<close> (among any other files) and \<open>model_tool\<close> runs to its end, then
  \<open>source/markov/ergodicity.rst\<close> holds the markov template filled in for \<open>ergodicity\<close>,
  with an underline of ten characters, \<open>source/models/lucastree.rst\<close> holds the models
  template filled in for \<open>lucastree\<close>, with an underline of nine characters, and the
  inclusion block of \<open>source/markov.rst\<close> lists \<open>markov/ergodicity\<close>.
\<close>

theorem split_mode_example:
  assumes "tree ''../quantecon/markov'' = Some markov_files"
    and "''ergodicity.py'' \<in> set markov_files"
    and "tree ''../quantecon/models'' = Some model_files"
    and "''lucastree.py'' \<in> set model_files"
    and "model_tool tree e s = (None, s')"
  shows "files s' ''source/markov/ergodicity.rst'' =
           Some (''ergodicity\<newline>'' @
                 ''==========\<newline>'' @
                 ''\<newline>'' @
                 ''.. automodule:: quantecon.markov.ergodicity\<newline>'' @
                 ''    :members:\<newline>'' @
                 ''    :undoc-members:\<newline>'' @
                 ''    :show-inheritance:\<newline>'') \<and>
         files s' ''source/models/lucastree.rst'' =
           Some (''lucastree\<newline>'' @
                 ''=========\<newline>'' @
                 ''\<newline>'' @
                 ''.. automodule:: quantecon.models.lucastree\<newline>'' @
                 ''    :members:\<newline>'' @
                 ''    :undoc-members:\<newline>'' @
                 ''    :show-inheritance:\<newline>'') \<and>
         (\<exists>listed. ''markov/ergodicity'' \<in> set listed \<and>
            files s' ''source/markov.rst'' =
              Some (''Markov\<newline>'' @
                    ''======\<newline>'' @
                    ''\<newline>'' @
                    ''.. toctree::\<newline>'' @
                    ''   :maxdepth: 2\<newline>'' @
                    ''\<newline>'' @
                    ''   '' @ join_py ''\<newline>   '' listed @ ''\<newline>''))"
proof -
  let ?names = "category_names tree ''../quantecon/markov''"
  from category_names_member [of tree "''../quantecon/markov''" markov_files, OF assms(1,2) fnmatch_examples(1)]
  have mem: "''ergodicity'' \<in> set ?names" by (simp add: bare_name_examples)
  then have ne: "?names \<noteq> []" by auto
  have "''markov/'' @ join_py (''\<newline>   '' @ ''markov/'') ?names =
      join_py ''\<newline>   '' (map ((@) ''markov/'') ?names)"
    using ne by (rule join_py_prefixed)
  then have j: "''markov/'' @ join_py ''\<newline>   markov/'' ?names =
      join_py ''\<newline>   '' (map ((@) ''markov/'') ?names)" by simp
  have l: "''markov/ergodicity'' \<in> set (map ((@) ''markov/'') ?names)"
    using mem by force
  have "files s' ''source/markov.rst'' =
      Some (index_doc ''markov'' (join_py ''\<newline>   '' (map ((@) ''markov/'') ?names)))"
    using markov_index_document [OF assms(5)] j by simp
  then have "files s' ''source/markov.rst'' =
              Some (''Markov\<newline>'' @ ''======\<newline>'' @ ''\<newline>'' @ ''.. toctree::\<newline>'' @
                    ''   :maxdepth: 2\<newline>'' @ ''\<newline>'' @
                    ''   '' @ join_py ''\<newline>   '' (map ((@) ''markov/'') ?names) @ ''\<newline>'')"
    by (simp add: index_doc_def upper_char_def lower_char_def)
  with l have third: "\<exists>listed. ''markov/ergodicity'' \<in> set listed \<and>
            files s' ''source/markov.rst'' =
              Some (''Markov\<newline>'' @ ''======\<newline>'' @ ''\<newline>'' @ ''.. toctree::\<newline>'' @
                    ''   :maxdepth: 2\<newline>'' @ ''\<newline>'' @
                    ''   '' @ join_py ''\<newline>   '' listed @ ''\<newline>'')"
    by blast
  from ergodicity_document [OF assms(1,2,5)] lucastree_document [OF assms(3,4,5)] third
  show ?thesis by (simp add: module_doc_def)
qed

theorem split_mode_example_witness:
  "\<exists>s'. model_tool example_tree quiet_env empty_fs = (None, s') \<and>
     line_py 1 (the (files s' ''source/markov/ergodicity.rst'')) = Some ''=========='' \<and>
     line_py 1 (the (files s' ''source/models/lucastree.rst'')) = Some ''========='' \<and>
     line_py 6 (the (files s' ''source/markov.rst'')) = Some ''   markov/ergodicity''"
proof -
  obtain s' where run: "model_tool example_tree quiet_env empty_fs = (None, s')"
    using model_tool_quiet [of example_tree empty_fs] by (cases "model_tool example_tree quiet_env empty_fs") auto
  have t: "example_tree ''../quantecon/markov'' = Some [''ergodicity.py'']"
    "example_tree ''../quantecon/models'' = Some [''lucastree.py'']"
    by (simp_all add: example_tree_def)
  from split_mode_example [OF t(1) _ t(2) _ run] obtain listed where
    e: "files s' ''source/markov/ergodicity.rst'' =
           Some (''ergodicity\<newline>'' @ ''==========\<newline>'' @ ''\<newline>'' @
                 ''.. automodule:: quantecon.markov.ergodicity\<newline>'' @
                 ''    :members:\<newline>'' @ ''    :undoc-members:\<newline>'' @
                 ''    :show-inheritance:\<newline>'')" and
    l: "files s' ''source/models/lucastree.rst'' =
           Some (''lucastree\<newline>'' @ ''=========\<newline>'' @ ''\<newline>'' @
                 ''.. automodule:: quantecon.models.lucastree\<newline>'' @
                 ''    :members:\<newline>'' @ ''    :undoc-members:\<newline>'' @
                 ''    :show-inheritance:\<newline>'')"
    by auto
  have m: "files s' ''source/markov.rst'' = Some (index_doc ''markov'' ''markov/ergodicity'')"
    using markov_index_document [OF run] by (simp add: example_names)
  show ?thesis
    using run e l m by (simp add: line_py_def index_doc_def upper_char_def lower_char_def)
qed

text \<open>
  The claim's underline of eight characters is not what the code writes: \<open>ergodicity\<close>
  has ten characters, and the second line of its document is \<open>==========\<close>.
\<close>

theorem eight_character_underline_counterexample:
  "fst (model_tool example_tree quiet_env empty_fs) = None \<and>
   files (snd (model_tool example_tree quiet_env empty_fs)) ''source/markov/ergodicity.rst'' =
     Some (''ergodicity\<newline>'' @ ''==========\<newline>'' @ ''\<newline>'' @
           ''.. automodule:: quantecon.markov.ergodicity\<newline>'' @
           ''    :members:\<newline>'' @ ''    :undoc-members:\<newline>'' @
           ''    :show-inheritance:\<newline>'') \<and>
   line_py 1 (''ergodicity\<newline>'' @ ''==========\<newline>'' @ ''\<newline>'' @
           ''.. automodule:: quantecon.markov.ergodicity\<newline>'' @
           ''    :members:\<newline>'' @ ''    :undoc-members:\<newline>'' @
           ''    :show-inheritance:\<newline>'') \<noteq> Some ''========'' \<and>
   length ''ergodicity'' = 10"
proof -
  obtain s' where run: "model_tool example_tree quiet_env empty_fs = (None, s')"
    using model_tool_quiet [of example_tree empty_fs] by (cases "model_tool example_tree quiet_env empty_fs") auto
  have t: "example_tree ''../quantecon/markov'' = Some [''ergodicity.py'']"
    by (simp add: example_tree_def)
  from ergodicity_document [OF t _ run]
  have "files s' ''source/markov/ergodicity.rst'' = Some (module_doc ''markov.'' ''ergodicity'')"
    by simp
  with run show ?thesis by (simp add: module_doc_def line_py_def)
qed

subsection \<open>Index documents of split-index mode\<close>

lemma join_py_listed:
  "pre @ ''/'' @ join_py (sep @ pre @ ''/'') names = join_py sep (listed_entries pre names)"
proof (cases "names = []")
  case True
  then show ?thesis by (simp add: listed_entries_def)
next
  case False
  with join_py_prefixed [of names "pre @ ''/''" sep] show ?thesis
    by (simp add: listed_entries_def)
qed

lemma join_py_snoc: "L \<noteq> [] \<Longrightarrow> join_py sep L @ sep @ x = join_py sep (L @ [x])"
  by (induction sep L rule: join_py.induct) simp_all

lemma listed_entries_ne: "listed_entries f names \<noteq> []"
  by (simp add: listed_entries_def)

lemma join_py_Cons: "xs \<noteq> [] \<Longrightarrow> join_py sep (x # xs) = x @ sep @ join_py sep xs"
  by (cases xs) simp_all

lemma split_py_joined:
  assumes "L \<noteq> []" and "\<forall>x \<in> set L. CHR 0x0A \<notin> set x"
  shows "split_py (CHR 0x0A) (''   '' @ join_py ''\<newline>   '' L @ ''\<newline>'') =
           map ((@) ''   '') L @ [[]]"
  using assms
proof (induction L rule: list_nonempty_induct)
  case (single x)
  then have "CHR 0x0A \<notin> set (''   '' @ x)" by simp
  from split_py_nosep [OF this, of "[]"] show ?case by simp
next
  case (cons x xs)
  then have "CHR 0x0A \<notin> set (''   '' @ x)" by simp
  from split_py_nosep [OF this, of "''   '' @ join_py ''\<newline>   '' xs @ ''\<newline>''"] cons
  show ?case by (simp add: join_py_Cons)
qed

lemma toctree_entries_index:
  assumes "L \<noteq> []" and "\<forall>x \<in> set L. CHR 0x0A \<notin> set x \<and> (x \<noteq> [] \<longrightarrow> hd x \<noteq> CHR '':'')"
    and "CHR 0x0A \<notin> set title" and "CHR 0x0A \<notin> set rule"
    and "title \<noteq> ''.. toctree::''" and "rule \<noteq> ''.. toctree::''"
  shows "toctree_entries (title @ ''\<newline>'' @ rule @ ''\<newline>'' @ ''\<newline>'' @ ''.. toctree::\<newline>'' @
           ''   :maxdepth: 2\<newline>'' @ ''\<newline>'' @ ''   '' @ join_py ''\<newline>   '' L @ ''\<newline>'') = L"
proof -
  let ?tail = "''   '' @ join_py ''\<newline>   '' L @ ''\<newline>''"
  let ?lines = "map ((@) ''   '') L @ [[]]"
  from assms(1) obtain x xs where L: "L = x # xs" by (cases L) auto
  have tail: "split_py (CHR 0x0A) ?tail = ?lines"
    by (rule split_py_joined [OF assms(1)]) (use assms(2) in blast)
  have mid: "split_py (CHR 0x0A) (''\<newline>'' @ ''.. toctree::\<newline>'' @ ''   :maxdepth: 2\<newline>'' @ ''\<newline>'' @ ?tail)
      = [[], ''.. toctree::'', ''   :maxdepth: 2'', []] @ ?lines"
    using tail by (simp add: L)
  have "split_py (CHR 0x0A) (rule @ CHR 0x0A # (''\<newline>'' @ ''.. toctree::\<newline>'' @ ''   :maxdepth: 2\<newline>'' @ ''\<newline>'' @ ?tail))
      = rule # [[], ''.. toctree::'', ''   :maxdepth: 2'', []] @ ?lines"
    using split_py_nosep [OF assms(4)] mid by simp
  then have "split_py (CHR 0x0A) (title @ CHR 0x0A # (rule @ CHR 0x0A # (''\<newline>'' @ ''.. toctree::\<newline>'' @ ''   :maxdepth: 2\<newline>'' @ ''\<newline>'' @ ?tail)))
      = title # rule # [[], ''.. toctree::'', ''   :maxdepth: 2'', []] @ ?lines"
    using split_py_nosep [OF assms(3)] by simp
  then have lines: "split_py (CHR 0x0A) (title @ ''\<newline>'' @ rule @ ''\<newline>'' @ ''\<newline>'' @ ''.. toctree::\<newline>'' @
           ''   :maxdepth: 2\<newline>'' @ ''\<newline>'' @ ?tail)
      = title # rule # [[], ''.. toctree::'', ''   :maxdepth: 2'', []] @ ?lines"
    by simp
  have tw: "takeWhile (\<lambda>l. l = [] \<or> take 3 l = ''   '') (''   :maxdepth: 2'' # [] # ?lines)
      = ''   :maxdepth: 2'' # [] # ?lines"
    by (rule takeWhile_eq_all_conv [THEN iffD2]) auto
  have el: "take 4 (''   '' @ y) \<noteq> ''   :''" if "y \<noteq> [] \<longrightarrow> hd y \<noteq> CHR '':''" for y
    using that by (cases y) auto
  have fl: "filter (\<lambda>l. l \<noteq> [] \<and> take 4 l \<noteq> ''   :'') (map ((@) ''   '') L) = map ((@) ''   '') L"
    using assms(2) el by (auto simp: filter_id_conv)
  have dw: "dropWhile (\<lambda>l. l \<noteq> ''.. toctree::'')
      (title # rule # [[], ''.. toctree::'', ''   :maxdepth: 2'', []] @ ?lines) =
      ''.. toctree::'' # ''   :maxdepth: 2'' # [] # ?lines"
    using assms(5,6) by simp
  have fl2: "filter (\<lambda>l. l \<noteq> [] \<and> take 4 l \<noteq> ''   :'') (''   :maxdepth: 2'' # [] # ?lines) =
      map ((@) ''   '') L"
    using fl by simp
  have dr: "map (drop 3) (map ((@) ''   '') L) = L"
    by (induction L) auto
  have "toctree_entries (title @ ''\<newline>'' @ rule @ ''\<newline>'' @ ''\<newline>'' @ ''.. toctree::\<newline>'' @
           ''   :maxdepth: 2\<newline>'' @ ''\<newline>'' @ ?tail) =
      map (drop 3) (filter (\<lambda>l. l \<noteq> [] \<and> take 4 l \<noteq> ''   :'')
        (takeWhile (\<lambda>l. l = [] \<or> take 3 l = ''   '')
          (tl (dropWhile (\<lambda>l. l \<noteq> ''.. toctree::'')
            (title # rule # [[], ''.. toctree::'', ''   :maxdepth: 2'', []] @ ?lines)))))"
    unfolding toctree_entries_def Let_def by (simp only: lines)
  also have "\<dots> = map (drop 3) (filter (\<lambda>l. l \<noteq> [] \<and> take 4 l \<noteq> ''   :'')
        (takeWhile (\<lambda>l. l = [] \<or> take 3 l = ''   '') (''   :maxdepth: 2'' # [] # ?lines)))"
    by (simp only: dw list.sel)
  also have "\<dots> = L"
    by (simp only: tw fl2 dr)
  finally show ?thesis .
qed

lemma toctree_entries_top:
  "toctree_entries split_index_template = [''markov'', ''models'', ''random'', ''tools'']"
  by (simp add: toctree_entries_def split_index_template_def)

lemma index_doc_entries:
  assumes "f \<in> set category_files" and "L \<noteq> []"
    and "\<forall>x \<in> set L. CHR 0x0A \<notin> set x \<and> (x \<noteq> [] \<longrightarrow> hd x \<noteq> CHR '':'')"
  shows "toctree_entries (index_doc f (join_py ''\<newline>   '' L)) = L"
proof -
  have "CHR 0x0A \<notin> set (capitalize f) \<and> CHR 0x0A \<notin> set (replicate (length f) (CHR ''='')) \<and>
      capitalize f \<noteq> ''.. toctree::'' \<and> replicate (length f) (CHR ''='') \<noteq> ''.. toctree::''"
    using assms(1) by (auto simp: category_files_def upper_char_def lower_char_def)
  with toctree_entries_index [OF assms(2,3), of "capitalize f" "replicate (length f) (CHR ''='')"]
  show ?thesis by (simp add: index_doc_def)
qed

lemma listed_entries_fine:
  assumes "f \<in> set category_files" and "\<forall>md \<in> set names. CHR 0x0A \<notin> set md"
    and "x \<in> set (listed_entries f names)"
  shows "CHR 0x0A \<notin> set x \<and> (x \<noteq> [] \<longrightarrow> hd x \<noteq> CHR '':'') \<and> x \<noteq> ''util''"
  using assms by (auto simp: category_files_def listed_entries_def split: if_splits)

lemma stmts_on_indexes:
  assumes "With_open p m b \<in> set (model_tool_stmts tree)"
  shows "p = ''source/index.rst'' \<Longrightarrow> b = Write split_index_template"
    "p = ''source/models.rst'' \<Longrightarrow> b = Write (index_doc ''models''
        (''models/'' @ join_py ''\<newline>   models/'' (category_names tree ''../quantecon/models'') @
         ''\<newline>   solow/''))"
    "p = ''source/random.rst'' \<Longrightarrow> b = Write (index_doc ''random''
        (''random/'' @ join_py ''\<newline>   random/'' (category_names tree ''../quantecon/random'')))"
    "p = ''source/tools.rst'' \<Longrightarrow> b = Write (index_doc ''tools''
        (''tools/'' @ join_py ''\<newline>   tools/'' (category_names tree ''../quantecon'')))"
    "p = ''source/util.rst'' \<Longrightarrow> b = Write (index_doc ''util''
        (''util/'' @ join_py ''\<newline>   util/'' (category_names tree ''../quantecon/util'')))"
  using assms
  by (auto simp: model_tool_stmts_closed module_stmt_def index_stmt_def)

lemma index_stmts_present:
  "With_open ''source/index.rst'' Mode_w (Write split_index_template) \<in> set (model_tool_stmts tree)"
  "index_stmt ''markov'' (''markov/'' @ join_py ''\<newline>   markov/'' (category_names tree ''../quantecon/markov''))
     \<in> set (model_tool_stmts tree)"
  "index_stmt ''models'' (''models/'' @ join_py ''\<newline>   models/'' (category_names tree ''../quantecon/models'') @ ''\<newline>   solow/'')
     \<in> set (model_tool_stmts tree)"
  "index_stmt ''random'' (''random/'' @ join_py ''\<newline>   random/'' (category_names tree ''../quantecon/random''))
     \<in> set (model_tool_stmts tree)"
  "index_stmt ''tools'' (''tools/'' @ join_py ''\<newline>   tools/'' (category_names tree ''../quantecon''))
     \<in> set (model_tool_stmts tree)"
  "index_stmt ''util'' (''util/'' @ join_py ''\<newline>   util/'' (category_names tree ''../quantecon/util''))
     \<in> set (model_tool_stmts tree)"
  by (simp_all add: model_tool_stmts_closed)

lemma listed_closed:
  "''markov/'' @ join_py ''\<newline>   markov/'' names = join_py ''\<newline>   '' (listed_entries ''markov'' names)"
  "''models/'' @ join_py ''\<newline>   models/'' names = join_py ''\<newline>   '' (listed_entries ''models'' names)"
  "''random/'' @ join_py ''\<newline>   random/'' names = join_py ''\<newline>   '' (listed_entries ''random'' names)"
  "''tools/'' @ join_py ''\<newline>   tools/'' names = join_py ''\<newline>   '' (listed_entries ''tools'' names)"
  "''util/'' @ join_py ''\<newline>   util/'' names = join_py ''\<newline>   '' (listed_entries ''util'' names)"
  using join_py_listed [of "''markov''" "''\<newline>   ''" names]
    join_py_listed [of "''models''" "''\<newline>   ''" names]
    join_py_listed [of "''random''" "''\<newline>   ''" names]
    join_py_listed [of "''tools''" "''\<newline>   ''" names]
    join_py_listed [of "''util''" "''\<newline>   ''" names]
  by simp_all

lemma listed_models_closed:
  "''models/'' @ join_py ''\<newline>   models/'' names @ ''\<newline>   solow/'' =
     join_py ''\<newline>   '' (listed_entries ''models'' names @ [''solow/''])"
proof -
  have a: "''models/'' @ join_py ''\<newline>   models/'' names @ ''\<newline>   solow/'' =
      (''models/'' @ join_py ''\<newline>   models/'' names) @ ''\<newline>   '' @ ''solow/''"
    by simp
  show ?thesis
    unfolding a listed_closed(2) by (rule join_py_snoc) (rule listed_entries_ne)
qed

lemma index_documents_raw:
  assumes "model_tool tree e s = (None, s')"
  shows "files s' ''source/index.rst'' = Some split_index_template"
    "files s' ''source/models.rst'' = Some (index_doc ''models''
        (''models/'' @ join_py ''\<newline>   models/'' (category_names tree ''../quantecon/models'') @
         ''\<newline>   solow/''))"
    "files s' ''source/random.rst'' = Some (index_doc ''random''
        (''random/'' @ join_py ''\<newline>   random/'' (category_names tree ''../quantecon/random'')))"
    "files s' ''source/tools.rst'' = Some (index_doc ''tools''
        (''tools/'' @ join_py ''\<newline>   tools/'' (category_names tree ''../quantecon'')))"
    "files s' ''source/util.rst'' = Some (index_doc ''util''
        (''util/'' @ join_py ''\<newline>   util/'' (category_names tree ''../quantecon/util'')))"
proof -
  have final: "\<exists>b'. With_open p Mode_w b' \<in> set (model_tool_stmts tree) \<and>
      files s' p = Some (written_text b')"
    if "With_open p Mode_w b \<in> set (model_tool_stmts tree)" for p b
    using model_tool_file [OF assms that] .
  note present = index_stmts_present [of tree, unfolded index_stmt_def, simplified]
  show "files s' ''source/index.rst'' = Some split_index_template"
    using final [OF present(1)] stmts_on_indexes(1) by fastforce
  show "files s' ''source/models.rst'' = Some (index_doc ''models''
        (''models/'' @ join_py ''\<newline>   models/'' (category_names tree ''../quantecon/models'') @
         ''\<newline>   solow/''))"
    using final [OF present(3)] stmts_on_indexes(2) by fastforce
  show "files s' ''source/random.rst'' = Some (index_doc ''random''
        (''random/'' @ join_py ''\<newline>   random/'' (category_names tree ''../quantecon/random'')))"
    using final [OF present(4)] stmts_on_indexes(3) by fastforce
  show "files s' ''source/tools.rst'' = Some (index_doc ''tools''
        (''tools/'' @ join_py ''\<newline>   tools/'' (category_names tree ''../quantecon'')))"
    using final [OF present(5)] stmts_on_indexes(4) by fastforce
  show "files s' ''source/util.rst'' = Some (index_doc ''util''
        (''util/'' @ join_py ''\<newline>   util/'' (category_names tree ''../quantecon/util'')))"
    using final [OF present(6)] stmts_on_indexes(5) by fastforce
qed

lemma index_documents:
  assumes "model_tool tree e s = (None, s')"
  shows "files s' ''source/index.rst'' = Some split_index_template"
    "files s' ''source/markov.rst'' = Some (index_doc ''markov''
        (join_py ''\<newline>   '' (listed_entries ''markov'' (category_names tree ''../quantecon/markov''))))"
    "files s' ''source/models.rst'' = Some (index_doc ''models''
        (join_py ''\<newline>   '' (listed_entries ''models'' (category_names tree ''../quantecon/models'') @
           [''solow/''])))"
    "files s' ''source/random.rst'' = Some (index_doc ''random''
        (join_py ''\<newline>   '' (listed_entries ''random'' (category_names tree ''../quantecon/random''))))"
    "files s' ''source/tools.rst'' = Some (index_doc ''tools''
        (join_py ''\<newline>   '' (listed_entries ''tools'' (category_names tree ''../quantecon''))))"
    "files s' ''source/util.rst'' = Some (index_doc ''util''
        (join_py ''\<newline>   '' (listed_entries ''util'' (category_names tree ''../quantecon/util''))))"
  using index_documents_raw [OF assms] markov_index_document [OF assms]
  by (simp_all only: listed_closed listed_models_closed)

lemma category_index_unreferencing:
  assumes "f \<in> set category_files" and "\<forall>md \<in> set names. CHR 0x0A \<notin> set md"
    and "extra = [] \<or> extra = [''solow/'']"
  shows "''util'' \<notin> set (toctree_entries (index_doc f (join_py ''\<newline>   '' (listed_entries f names @ extra))))"
proof -
  let ?L = "listed_entries f names @ extra"
  have ne: "?L \<noteq> []" using listed_entries_ne by simp
  have fine: "\<forall>x \<in> set ?L. CHR 0x0A \<notin> set x \<and> (x \<noteq> [] \<longrightarrow> hd x \<noteq> CHR '':'')"
    using listed_entries_fine [OF assms(1,2)] assms(3) by auto
  have "''util'' \<notin> set ?L"
    using listed_entries_fine [OF assms(1,2)] assms(3) by auto
  with index_doc_entries [OF assms(1) ne fine] show ?thesis by simp
qed

text \<open>
  C9. A run of \<open>model_tool\<close> that completes has written \<open>source/util.rst\<close>, the index of
  the util category, and \<open>source/index.rst\<close>, whose \<open>toctree\<close> lists \<open>markov\<close>, \<open>models\<close>,
  \<open>random\<close> and \<open>tools\<close> and not \<open>util\<close>. The category indexes do not list it either: when
  no module name holds a line feed, their entries are the prefixed module names (and
  \<open>solow/\<close>), none of which is \<open>util\<close>. So no index document refers to \<open>util.rst\<close>.
\<close>

theorem util_index_not_referenced:
  assumes "model_tool tree e s = (None, s')"
  shows "files s' ''source/util.rst'' =
           Some (''Util\<newline>'' @ ''====\<newline>'' @ ''\<newline>'' @ ''.. toctree::\<newline>'' @
                 ''   :maxdepth: 2\<newline>'' @ ''\<newline>'' @
                 ''   '' @ join_py ''\<newline>   ''
                   (listed_entries ''util'' (category_names tree ''../quantecon/util'')) @ ''\<newline>'') \<and>
         files s' ''source/index.rst'' = Some split_index_template \<and>
         toctree_entries split_index_template = [''markov'', ''models'', ''random'', ''tools''] \<and>
         ''util'' \<notin> set (toctree_entries split_index_template) \<and>
         ((\<forall>d. \<forall>md \<in> set (category_names tree d). CHR 0x0A \<notin> set md) \<longrightarrow>
          (\<forall>f \<in> set category_files. \<exists>doc.
             files s' (''source/'' @ f @ ''.rst'') = Some doc \<and>
             ''util'' \<notin> set (toctree_entries doc)))"
proof -
  note docs = index_documents [OF assms]
  have u: "files s' ''source/util.rst'' =
           Some (''Util\<newline>'' @ ''====\<newline>'' @ ''\<newline>'' @ ''.. toctree::\<newline>'' @
                 ''   :maxdepth: 2\<newline>'' @ ''\<newline>'' @
                 ''   '' @ join_py ''\<newline>   ''
                   (listed_entries ''util'' (category_names tree ''../quantecon/util'')) @ ''\<newline>'')"
    using docs(6) by (simp add: index_doc_def upper_char_def lower_char_def)
  have cat: "\<forall>f \<in> set category_files. \<exists>doc.
             files s' (''source/'' @ f @ ''.rst'') = Some doc \<and>
             ''util'' \<notin> set (toctree_entries doc)"
    if nl: "\<forall>d. \<forall>md \<in> set (category_names tree d). CHR 0x0A \<notin> set md"
  proof
    fix f assume f: "f \<in> set category_files"
    have un: "''util'' \<notin> set (toctree_entries (index_doc f (join_py ''\<newline>   ''
        (listed_entries f (category_names tree d) @ extra))))"
      if "extra = [] \<or> extra = [''solow/'']" for d extra
      using category_index_unreferencing [OF f _ that] nl by blast
    from f consider "f = ''markov''" | "f = ''models''" | "f = ''random''" | "f = ''tools''"
      | "f = ''util''" by (auto simp: category_files_def)
    then show "\<exists>doc. files s' (''source/'' @ f @ ''.rst'') = Some doc \<and>
             ''util'' \<notin> set (toctree_entries doc)"
    proof cases
      case 1
      with docs(2) un [of "[]" "''../quantecon/markov''"] show ?thesis by simp
    next
      case 2
      with docs(3) un [of "[''solow/'']" "''../quantecon/models''"] show ?thesis by simp
    next
      case 3
      with docs(4) un [of "[]" "''../quantecon/random''"] show ?thesis by simp
    next
      case 4
      with docs(5) un [of "[]" "''../quantecon''"] show ?thesis by simp
    next
      case 5
      with docs(6) un [of "[]" "''../quantecon/util''"] show ?thesis by simp
    qed
  qed
  from u docs(1) toctree_entries_top cat show ?thesis by simp
qed

lemma example_names_other:
  "d \<notin> {''../quantecon/markov'', ''../quantecon/models''} \<Longrightarrow> category_names example_tree d = []"
  by (simp add: category_names_def glob_py_def example_tree_def)

theorem util_index_not_referenced_witness:
  "\<exists>s'. model_tool example_tree quiet_env empty_fs = (None, s') \<and>
     files s' ''source/util.rst'' =
       Some (''Util\<newline>'' @ ''====\<newline>'' @ ''\<newline>'' @ ''.. toctree::\<newline>'' @
             ''   :maxdepth: 2\<newline>'' @ ''\<newline>'' @ ''   util/\<newline>'') \<and>
     toctree_entries (the (files s' ''source/index.rst'')) = [''markov'', ''models'', ''random'', ''tools''] \<and>
     (\<forall>f \<in> set category_files.
        ''util'' \<notin> set (toctree_entries (the (files s' (''source/'' @ f @ ''.rst'')))))"
proof -
  obtain s' where run: "model_tool example_tree quiet_env empty_fs = (None, s')"
    using model_tool_quiet [of example_tree empty_fs]
    by (cases "model_tool example_tree quiet_env empty_fs") auto
  have nl: "\<forall>d. \<forall>md \<in> set (category_names example_tree d). CHR 0x0A \<notin> set md"
  proof (intro allI ballI)
    fix d md assume "md \<in> set (category_names example_tree d)"
    moreover have "d = ''../quantecon/markov'' \<or> d = ''../quantecon/models'' \<or>
        category_names example_tree d = []"
      using example_names_other [of d] by blast
    ultimately show "CHR 0x0A \<notin> set md"
      by (auto simp: example_names)
  qed
  from util_index_not_referenced [OF run] nl have
    "files s' ''source/util.rst'' =
           Some (''Util\<newline>'' @ ''====\<newline>'' @ ''\<newline>'' @ ''.. toctree::\<newline>'' @
                 ''   :maxdepth: 2\<newline>'' @ ''\<newline>'' @
                 ''   '' @ join_py ''\<newline>   ''
                   (listed_entries ''util'' (category_names example_tree ''../quantecon/util'')) @ ''\<newline>'')"
    "files s' ''source/index.rst'' = Some split_index_template"
    "toctree_entries split_index_template = [''markov'', ''models'', ''random'', ''tools'']"
    "\<forall>f \<in> set category_files. \<exists>doc.
             files s' (''source/'' @ f @ ''.rst'') = Some doc \<and>
             ''util'' \<notin> set (toctree_entries doc)"
    by blast+
  with run show ?thesis
    by (auto simp: example_names listed_entries_def)
qed

subsection \<open>A category without modules\<close>

text \<open>
  C8. The claim is that a category index lists exactly the discovered module names of its
  category. For a category with no module the code lists one entry all the same:
  \<open>"util/" + "\<newline>   util/".join([])\<close> is \<open>util/\<close>. In the example tree, which has no
  \<open>util\<close> directory, \<open>source/util.rst\<close> gets the entry \<open>util/\<close>.
\<close>

theorem empty_category_index_entry:
  "category_names example_tree ''../quantecon/util'' = [] \<and>
   fst (model_tool example_tree quiet_env empty_fs) = None \<and>
   files (snd (model_tool example_tree quiet_env empty_fs)) ''source/util.rst'' =
     Some (''Util\<newline>'' @ ''====\<newline>'' @ ''\<newline>'' @ ''.. toctree::\<newline>'' @
           ''   :maxdepth: 2\<newline>'' @ ''\<newline>'' @ ''   util/\<newline>'') \<and>
   toctree_entries (''Util\<newline>'' @ ''====\<newline>'' @ ''\<newline>'' @ ''.. toctree::\<newline>'' @
           ''   :maxdepth: 2\<newline>'' @ ''\<newline>'' @ ''   util/\<newline>'') = [''util/'']"
proof -
  obtain s' where run: "model_tool example_tree quiet_env empty_fs = (None, s')"
    using model_tool_quiet [of example_tree empty_fs]
    by (cases "model_tool example_tree quiet_env empty_fs") auto
  from index_documents(6) [OF run]
  have "files s' ''source/util.rst'' =
     Some (''Util\<newline>'' @ ''====\<newline>'' @ ''\<newline>'' @ ''.. toctree::\<newline>'' @
           ''   :maxdepth: 2\<newline>'' @ ''\<newline>'' @ ''   util/\<newline>'')"
    by (simp add: example_names listed_entries_def index_doc_def upper_char_def lower_char_def)
  moreover have "toctree_entries (''Util\<newline>'' @ ''====\<newline>'' @ ''\<newline>'' @ ''.. toctree::\<newline>'' @
           ''   :maxdepth: 2\<newline>'' @ ''\<newline>'' @ ''   util/\<newline>'') = [''util/'']"
    by (simp add: toctree_entries_def)
  ultimately show ?thesis using run by (simp add: example_names)
qed

end
